theory Spec2Isabelle
  imports Complex_Main
begin

section \<open>Discrete multi-fidelity Bayesian optimisation: the tutorial notebook\<close>

text \<open>
  The development embeds \<^verbatim>\<open>tutorials/discrete_multi_fidelity_bo.ipynb\<close>. The notebook is
  orchestration code over a numerical library: every cell is translated as it is written,
  and each library routine it calls is a field of the record \<open>env\<close> (an oracle whose
  result is arbitrary and which may raise). Double-precision numbers are modelled by
  \<open>real\<close>: the costs the notebook accumulates are built from 5.0 and the fidelities 0.5,
  0.75, 1.0, small multiples of 0.25, which doubles add exactly. Printing is left out.
\<close>

subsection \<open>Tensors, errors and the run monad\<close>

text \<open>
  A two-dimensional tensor is the list of its rows. A tensor without rows carries no
  width, so a shape check never fails on it.
\<close>

type_synonym tensor = "real list list"

text \<open>
  What the notebook can raise: the errors of indexing and of shape mismatch that the
  notebook's own tensor expressions raise, and whatever a library routine raises.
\<close>

datatype error =
  IndexError | RuntimeError | ValueError | NameError | AttributeError | LibraryError string

text \<open>
  A fitted or unfitted Gaussian-process surrogate, \<^verbatim>\<open>SingleTaskMultiFidelityGP\<close>: the data it
  was built on and the hyperparameters fitting gave it. Building a library object is
  building the value; what can raise are the library's routines below.
\<close>

record gp =
  gp_train_X :: tensor
  gp_train_Y :: tensor
  gp_data_fidelity :: nat
  gp_hyperparameters :: "real list"

text \<open>
  The acquisition functions the notebook constructs, by their class names and with the
  arguments that vary: \<^verbatim>\<open>qExpectedImprovement(model, best_f)\<close>,
  \<^verbatim>\<open>qMultiFidelityKnowledgeGradient(model, num_fantasies, current_value)\<close> (its cost-aware
  utility and projection are the notebook's fixed globals) and
  \<^verbatim>\<open>FixedFeatureAcquisitionFunction(acq_function, d, columns, values)\<close>.
\<close>

datatype acqf =
    PosteriorMean gp
  | qExpectedImprovement gp real
  | qMultiFidelityKnowledgeGradient gp nat real
  | FixedFeatureAcquisitionFunction acqf nat "nat list" "real list"

text \<open>
  Keyword arguments of the optimisation routines:
  \<^verbatim>\<open>gen_one_shot_kg_initial_conditions(acq_function, bounds, q, num_restarts, raw_samples)\<close>,
  \<^verbatim>\<open>optimize_acqf\<close> adds \<^verbatim>\<open>options={"batch_limit": _, "maxiter": _}\<close>, and
  \<^verbatim>\<open>optimize_acqf_mixed\<close> adds \<^verbatim>\<open>fixed_features_list\<close> and
  \<^verbatim>\<open>batch_initial_conditions\<close>.
\<close>

record init_args =
  arg_acq_function :: acqf
  arg_bounds :: tensor
  arg_q :: nat
  arg_num_restarts :: nat
  arg_raw_samples :: nat

record opt_args = init_args +
  arg_batch_limit :: nat
  arg_maxiter :: nat

record mixed_args = opt_args +
  arg_fixed_features_list :: "(nat \<times> real) list list"
  arg_batch_initial_conditions :: "tensor list"

text \<open>The library calls a run makes, in order: the externally visible effects.\<close>

datatype call =
    Call_rand nat nat
  | Call_randint nat nat
  | Call_problem tensor
  | Call_fit_gpytorch_model gp
  | Call_optimize_acqf opt_args
  | Call_gen_one_shot_kg_initial_conditions init_args
  | Call_optimize_acqf_mixed mixed_args

text \<open>
  The library behind the notebook. Each routine gets the number of library calls made so
  far as its first argument (the hidden state of the random generator: two calls with the
  same arguments need not agree) and returns its result or the error it raises.
  \<^item> \<open>torch_rand t n d\<close> is \<^verbatim>\<open>torch.rand(n, d)\<close>;
  \<^item> \<open>torch_randint t high n\<close> is \<^verbatim>\<open>torch.randint(high, (n, 1))\<close>, as the list of its entries;
  \<^item> \<open>problem t X\<close> is \<^verbatim>\<open>AugmentedHartmann(negate=True)\<close> applied to the rows of \<open>X\<close>;
  \<^item> \<open>fit_hyperparameters t model\<close> is what \<^verbatim>\<open>fit_gpytorch_model\<close> writes into the model;
  \<^item> the last three are the optimisation routines, returning candidates and the
    acquisition value (or the initial conditions).
\<close>

record env =
  torch_rand :: "nat \<Rightarrow> nat \<Rightarrow> nat \<Rightarrow> error + tensor"
  torch_randint :: "nat \<Rightarrow> nat \<Rightarrow> nat \<Rightarrow> error + nat list"
  problem :: "nat \<Rightarrow> tensor \<Rightarrow> error + real list"
  fit_hyperparameters :: "nat \<Rightarrow> gp \<Rightarrow> error + real list"
  optimize_acqf :: "nat \<Rightarrow> opt_args \<Rightarrow> error + (tensor \<times> real)"
  gen_one_shot_kg_initial_conditions :: "nat \<Rightarrow> init_args \<Rightarrow> error + tensor list"
  optimize_acqf_mixed :: "nat \<Rightarrow> mixed_args \<Rightarrow> error + (tensor \<times> real)"

text \<open>
  A computation of the notebook: it reads the log of the library calls made so far and
  either returns a value or raises an error, in both cases with the extended log: the
  calls made before an error was raised have been made. There is no handler: the
  notebook has no \<^verbatim>\<open>try\<close>.
\<close>

type_synonym 'a run = "call list \<Rightarrow> (error \<times> call list) + ('a \<times> call list)"

definition return :: "'a \<Rightarrow> 'a run" where
  "return v cs = Inr (v, cs)"

definition raise :: "error \<Rightarrow> 'a run" where
  "raise e cs = Inl (e, cs)"

definition and_then :: "'a run \<Rightarrow> ('a \<Rightarrow> 'b run) \<Rightarrow> 'b run" where
  "and_then m f cs = (case m cs of Inl r \<Rightarrow> Inl r | Inr (v, cs') \<Rightarrow> f v cs')"

definition lift :: "error + 'a \<Rightarrow> 'a run" where
  "lift r cs = (case r of Inl e \<Rightarrow> Inl (e, cs) | Inr v \<Rightarrow> Inr (v, cs))"

text \<open>
  A library call: the routine runs on the current call count and the call is logged,
  whether it returns or raises.
\<close>

definition library :: "call \<Rightarrow> (nat \<Rightarrow> error + 'a) \<Rightarrow> 'a run" where
  "library c f cs =
     (case f (length cs) of Inl e \<Rightarrow> Inl (e, cs @ [c]) | Inr v \<Rightarrow> Inr (v, cs @ [c]))"

subsection \<open>Tensor expressions of the notebook\<close>

text \<open>\<^verbatim>\<open>torch.cat((A, B), dim=1)\<close>: the rows are joined; the row counts must agree.\<close>

definition cat_dim1 :: "tensor \<Rightarrow> tensor \<Rightarrow> error + tensor" where
  "cat_dim1 A B = (if length A = length B then Inr (map2 (@) A B) else Inl RuntimeError)"

text \<open>\<^verbatim>\<open>torch.cat([A, B])\<close>: the rows of \<open>B\<close> follow those of \<open>A\<close>; the row widths must agree.\<close>

definition cat_dim0 :: "tensor \<Rightarrow> tensor \<Rightarrow> error + tensor" where
  "cat_dim0 A B =
     (if list_all (\<lambda>a. list_all (\<lambda>b. length a = length b) B) A
      then Inr (A @ B) else Inl RuntimeError)"

text \<open>\<^verbatim>\<open>y.unsqueeze(-1)\<close> on a vector: every entry becomes a row of width one.\<close>

definition unsqueeze :: "real list \<Rightarrow> tensor" where
  "unsqueeze ys = map (\<lambda>y. [y]) ys"

text \<open>\<^verbatim>\<open>T.sum()\<close> and \<^verbatim>\<open>T.max()\<close> over all entries; \<^verbatim>\<open>max\<close> of an empty tensor raises.\<close>

definition tensor_sum :: "tensor \<Rightarrow> real" where
  "tensor_sum T = sum_list (concat T)"

definition tensor_max :: "tensor \<Rightarrow> error + real" where
  "tensor_max T = (case concat T of [] \<Rightarrow> Inl RuntimeError | y # ys \<Rightarrow> Inr (fold max ys y))"

text \<open>\<^verbatim>\<open>bounds[:, :-1]\<close>: the last column is dropped.\<close>

definition drop_last_column :: "tensor \<Rightarrow> tensor" where
  "drop_last_column T = map butlast T"

text \<open>Python's truth value of \<^verbatim>\<open>os.environ.get("SMOKE_TEST")\<close>: unset and empty are false.\<close>

definition truthy :: "string option \<Rightarrow> bool" where
  "truthy v = (case v of None \<Rightarrow> False | Some s \<Rightarrow> s \<noteq> [])"

subsection \<open>Library classes with a closed form\<close>

text \<open>
  Modelled from the spec: \<^verbatim>\<open>AffineFidelityCostModel\<close> (botorch.models.cost) is not under
  src/. The notebook builds it with \<^verbatim>\<open>fidelity_weights={6: 1.0}, fixed_cost=5.0\<close>; the
  cost of a row is the fixed cost plus the weighted fidelity coordinates ("the affine
  cost"), one output per row. A row without one of the fidelity columns cannot be indexed.
\<close>

definition AffineFidelityCostModel :: "(nat \<times> real) list \<Rightarrow> real \<Rightarrow> tensor \<Rightarrow> error + tensor" where
  "AffineFidelityCostModel fidelity_weights fixed_cost X =
     (if list_all (\<lambda>row. list_all (\<lambda>(i, w). i < length row) fidelity_weights) X
      then Inr (map (\<lambda>row. [fixed_cost + sum_list (map (\<lambda>(i, w). w * row ! i) fidelity_weights)]) X)
      else Inl IndexError)"

text \<open>
  Modelled from the spec: \<^verbatim>\<open>FixedFeatureAcquisitionFunction._construct_X_full\<close>
  (botorch.acquisition.fixed_feature) is not under src/. With dimension \<open>d\<close>, fixed
  \<open>columns\<close> and their \<open>values\<close>, it widens every row of the reduced input to \<open>d\<close>
  coordinates: a fixed column gets its value ("appended as a 7th coordinate" for column
  6 of 7), the other columns take the row's coordinates in order. A row whose width is
  not \<open>d\<close> minus the number of fixed values is refused.
\<close>

fun fill_row :: "nat list \<Rightarrow> nat list \<Rightarrow> real list \<Rightarrow> real list \<Rightarrow> real list" where
  "fill_row [] columns values row = []"
| "fill_row (i # is) columns values row =
     (if i \<in> set columns
      then (case values of [] \<Rightarrow> [] | v # vs \<Rightarrow> v # fill_row is columns vs row)
      else (case row of [] \<Rightarrow> [] | x # xs \<Rightarrow> x # fill_row is columns values xs))"

definition construct_X_full :: "nat \<Rightarrow> nat list \<Rightarrow> real list \<Rightarrow> tensor \<Rightarrow> error + tensor" where
  "construct_X_full d columns values X =
     (if list_all (\<lambda>row. length row + length values = d) X
      then Inr (map (fill_row [0..<d] columns values) X)
      else Inl ValueError)"

subsection \<open>Cells 1 to 3: set-up, initial data, model\<close>

text \<open>\<^verbatim>\<open>fidelities = torch.tensor([0.5, 0.75, 1.0])\<close>\<close>

definition fidelities :: "real list" where
  "fidelities = [0.5, 0.75, 1.0]"

text \<open>\<^verbatim>\<open>fidelities[idx]\<close> for an index tensor of shape (n, 1): an index out of range raises.\<close>

definition index_fidelities :: "nat list \<Rightarrow> error + tensor" where
  "index_fidelities idx =
     (if list_all (\<lambda>i. i < length fidelities) idx
      then Inr (map (\<lambda>i. [fidelities ! i]) idx) else Inl IndexError)"

definition generate_initial_data :: "env \<Rightarrow> nat \<Rightarrow> (tensor \<times> tensor) run" where
  "generate_initial_data L n =
     and_then (library (Call_rand n 6) (\<lambda>t. torch_rand L t n 6)) (\<lambda>train_x.
     and_then (library (Call_randint 3 n) (\<lambda>t. torch_randint L t 3 n)) (\<lambda>idx.
     and_then (lift (index_fidelities idx)) (\<lambda>train_f.
     and_then (lift (cat_dim1 train_x train_f)) (\<lambda>train_x_full.
     and_then (library (Call_problem train_x_full) (\<lambda>t. problem L t train_x_full)) (\<lambda>y.
     return (train_x_full, unsqueeze y))))))"

text \<open>
  \<^verbatim>\<open>initialize_model\<close> builds the surrogate on the tensors it is given, with
  \<^verbatim>\<open>data_fidelity=6\<close>; the marginal log likelihood wraps that same model.
\<close>

datatype mll = ExactMarginalLogLikelihood gp

definition initialize_model :: "tensor \<Rightarrow> tensor \<Rightarrow> mll \<times> gp" where
  "initialize_model train_x train_obj =
     (let model = \<lparr>gp_train_X = train_x, gp_train_Y = train_obj, gp_data_fidelity = 6,
                    gp_hyperparameters = []\<rparr>
      in (ExactMarginalLogLikelihood model, model))"

text \<open>
  \<^verbatim>\<open>fit_gpytorch_model(mll)\<close> fits the wrapped model in place; the notebook's variable
  \<^verbatim>\<open>model\<close> is that object, so the fitted model is returned here.
\<close>

definition fit_gpytorch_model :: "env \<Rightarrow> mll \<Rightarrow> gp run" where
  "fit_gpytorch_model L m =
     (case m of ExactMarginalLogLikelihood model \<Rightarrow>
        and_then (library (Call_fit_gpytorch_model model) (\<lambda>t. fit_hyperparameters L t model))
          (\<lambda>h. return (model\<lparr>gp_hyperparameters := h\<rparr>)))"

subsection \<open>Cell 4: the cost model and the knowledge-gradient acquisition function\<close>

text \<open>
  \<^verbatim>\<open>bounds = torch.tensor([[0.0] * problem.dim, [1.0] * problem.dim])\<close>; the dimension of the
  test problem is 7 (six design coordinates and the fidelity), the \<^verbatim>\<open>d=7\<close> of the notebook.
\<close>

definition bounds :: tensor where
  "bounds = [replicate 7 0, replicate 7 1]"

definition cost_model :: "tensor \<Rightarrow> error + tensor" where
  "cost_model = AffineFidelityCostModel [(6, 1.0)] 5.0"

definition get_mfkg :: "env \<Rightarrow> string option \<Rightarrow> gp \<Rightarrow> acqf run" where
  "get_mfkg L SMOKE_TEST model =
     (let curr_val_acqf = FixedFeatureAcquisitionFunction (PosteriorMean model) 7 [6] [1];
          args = \<lparr>arg_acq_function = curr_val_acqf,
                  arg_bounds = drop_last_column bounds,
                  arg_q = 1,
                  arg_num_restarts = (if \<not> truthy SMOKE_TEST then 10 else 2),
                  arg_raw_samples = (if \<not> truthy SMOKE_TEST then 1024 else 4),
                  arg_batch_limit = 10, arg_maxiter = 200\<rparr>
      in and_then (library (Call_optimize_acqf args) (\<lambda>t. optimize_acqf L t args))
           (\<lambda>(_, current_value).
              return (qMultiFidelityKnowledgeGradient model
                        (if \<not> truthy SMOKE_TEST then 128 else 2) current_value)))"

subsection \<open>Cell 5: one step of multi-fidelity optimisation\<close>

definition NUM_RESTARTS :: "string option \<Rightarrow> nat" where
  "NUM_RESTARTS SMOKE_TEST = (if \<not> truthy SMOKE_TEST then 10 else 2)"

definition RAW_SAMPLES :: "string option \<Rightarrow> nat" where
  "RAW_SAMPLES SMOKE_TEST = (if \<not> truthy SMOKE_TEST then 512 else 4)"

definition optimize_mfkg_and_get_observation ::
    "env \<Rightarrow> string option \<Rightarrow> acqf \<Rightarrow> (tensor \<times> tensor \<times> real) run" where
  "optimize_mfkg_and_get_observation L SMOKE_TEST mfkg_acqf =
     (let init = \<lparr>arg_acq_function = mfkg_acqf, arg_bounds = bounds, arg_q = 4,
                  arg_num_restarts = 10, arg_raw_samples = 512\<rparr>
      in and_then (library (Call_gen_one_shot_kg_initial_conditions init)
                     (\<lambda>t. gen_one_shot_kg_initial_conditions L t init)) (\<lambda>X_init.
         (let args = \<lparr>arg_acq_function = mfkg_acqf, arg_bounds = bounds, arg_q = 4,
                      arg_num_restarts = NUM_RESTARTS SMOKE_TEST,
                      arg_raw_samples = RAW_SAMPLES SMOKE_TEST,
                      arg_batch_limit = 5, arg_maxiter = 200,
                      arg_fixed_features_list = [[(6, 0.5)], [(6, 0.75)], [(6, 1.0)]],
                      arg_batch_initial_conditions = X_init\<rparr>
          in and_then (library (Call_optimize_acqf_mixed args) (\<lambda>t. optimize_acqf_mixed L t args))
               (\<lambda>(candidates, _).
          and_then (lift (cost_model candidates)) (\<lambda>costs.
          (let cost = tensor_sum costs; new_x = candidates
           in and_then (library (Call_problem new_x) (\<lambda>t. problem L t new_x)) (\<lambda>y.
              return (new_x, unsqueeze y, cost))))))))"

subsection \<open>Cells 6 and 7: the optimisation loop\<close>

text \<open>
  The notebook's global variables that the loops assign: \<^verbatim>\<open>train_x\<close>, \<^verbatim>\<open>train_obj\<close>,
  \<^verbatim>\<open>cumulative_cost\<close> and \<^verbatim>\<open>model\<close> (the fields carry the prefix \<open>g_\<close>). \<^verbatim>\<open>model\<close> is unbound
  until the first iteration of a loop has run.
\<close>

record nb =
  g_train_x :: tensor
  g_train_obj :: tensor
  g_cumulative_cost :: real
  g_model :: "gp option"

definition N_ITER :: "string option \<Rightarrow> nat" where
  "N_ITER SMOKE_TEST = (if \<not> truthy SMOKE_TEST then 3 else 1)"

text \<open>\<^verbatim>\<open>for _ in range(n): body\<close> on the globals: the body runs \<open>n\<close> times, in sequence.\<close>

fun for_range :: "nat \<Rightarrow> ('s \<Rightarrow> 's run) \<Rightarrow> 's \<Rightarrow> 's run" where
  "for_range 0 body s = return s"
| "for_range (Suc n) body s = and_then (body s) (for_range n body)"

text \<open>The body of the loop of cell 7.\<close>

definition mfkg_iteration :: "env \<Rightarrow> string option \<Rightarrow> nb \<Rightarrow> nb run" where
  "mfkg_iteration L SMOKE_TEST g =
     (case initialize_model (g_train_x g) (g_train_obj g) of (m, _) \<Rightarrow>
      and_then (fit_gpytorch_model L m) (\<lambda>model'.
      and_then (get_mfkg L SMOKE_TEST model') (\<lambda>mfkg_acqf.
      and_then (optimize_mfkg_and_get_observation L SMOKE_TEST mfkg_acqf) (\<lambda>(new_x, new_obj, cost).
      and_then (lift (cat_dim0 (g_train_x g) new_x)) (\<lambda>train_x'.
      and_then (lift (cat_dim0 (g_train_obj g) new_obj)) (\<lambda>train_obj'.
      return (g\<lparr>g_train_x := train_x', g_train_obj := train_obj',
                g_cumulative_cost := g_cumulative_cost g + cost, g_model := Some model'\<rparr>)))))))"

text \<open>Cell 6 binds the training data; cell 7 resets the cost and runs the loop.\<close>

definition cell_6 :: "env \<Rightarrow> nb run" where
  "cell_6 L =
     and_then (generate_initial_data L 16) (\<lambda>(x, obj).
     return \<lparr>g_train_x = x, g_train_obj = obj, g_cumulative_cost = 0, g_model = None\<rparr>)"

definition cell_7 :: "env \<Rightarrow> string option \<Rightarrow> nb \<Rightarrow> nb run" where
  "cell_7 L SMOKE_TEST g =
     for_range (N_ITER SMOKE_TEST) (mfkg_iteration L SMOKE_TEST) (g\<lparr>g_cumulative_cost := 0\<rparr>)"

subsection \<open>Cells 8 and 9: the recommendation\<close>

definition get_recommendation :: "env \<Rightarrow> gp \<Rightarrow> tensor run" where
  "get_recommendation L model =
     (let rec_acqf = FixedFeatureAcquisitionFunction (PosteriorMean model) 7 [6] [1];
          args = \<lparr>arg_acq_function = rec_acqf,
                  arg_bounds = drop_last_column bounds,
                  arg_q = 1, arg_num_restarts = 10, arg_raw_samples = 512,
                  arg_batch_limit = 5, arg_maxiter = 200\<rparr>
      in and_then (library (Call_optimize_acqf args) (\<lambda>t. optimize_acqf L t args))
           (\<lambda>(final_rec, _).
         and_then (lift (construct_X_full 7 [6] [1] final_rec)) (\<lambda>final_rec.
         and_then (library (Call_problem final_rec) (\<lambda>t. problem L t final_rec)) (\<lambda>objective_value.
         return final_rec))))"

text \<open>\<^verbatim>\<open>final_rec = get_recommendation(model)\<close>: the global \<^verbatim>\<open>model\<close> must be bound.\<close>

definition cell_9 :: "env \<Rightarrow> nb \<Rightarrow> tensor run" where
  "cell_9 L g = (case g_model g of None \<Rightarrow> raise NameError | Some m \<Rightarrow> get_recommendation L m)"

subsection \<open>Cells 10 to 12: the expected-improvement baseline\<close>

definition get_ei :: "gp \<Rightarrow> real \<Rightarrow> acqf" where
  "get_ei model best_f =
     FixedFeatureAcquisitionFunction (qExpectedImprovement model best_f) 7 [6] [1]"

definition optimize_ei_and_get_observation :: "env \<Rightarrow> acqf \<Rightarrow> (tensor \<times> tensor \<times> real) run" where
  "optimize_ei_and_get_observation L ei_acqf =
     (let args = \<lparr>arg_acq_function = ei_acqf,
                  arg_bounds = drop_last_column bounds,
                  arg_q = 4, arg_num_restarts = 10, arg_raw_samples = 512,
                  arg_batch_limit = 5, arg_maxiter = 200\<rparr>
      in and_then (library (Call_optimize_acqf args) (\<lambda>t. optimize_acqf L t args))
           (\<lambda>(candidates, _).
         and_then (lift (case ei_acqf of
                           FixedFeatureAcquisitionFunction _ d columns values \<Rightarrow>
                             construct_X_full d columns values candidates
                         | _ \<Rightarrow> Inl AttributeError)) (\<lambda>candidates.
         and_then (lift (cost_model candidates)) (\<lambda>costs.
         (let cost = tensor_sum costs; new_x = candidates
          in and_then (library (Call_problem new_x) (\<lambda>t. problem L t new_x)) (\<lambda>y.
             return (new_x, unsqueeze y, cost)))))))"

text \<open>The body of the loop of cell 11.\<close>

definition ei_iteration :: "env \<Rightarrow> nb \<Rightarrow> nb run" where
  "ei_iteration L g =
     (case initialize_model (g_train_x g) (g_train_obj g) of (m, _) \<Rightarrow>
      and_then (fit_gpytorch_model L m) (\<lambda>model'.
      and_then (lift (tensor_max (g_train_obj g))) (\<lambda>best_f.
      and_then (optimize_ei_and_get_observation L (get_ei model' best_f)) (\<lambda>(new_x, new_obj, cost).
      and_then (lift (cat_dim0 (g_train_x g) new_x)) (\<lambda>train_x'.
      and_then (lift (cat_dim0 (g_train_obj g) new_obj)) (\<lambda>train_obj'.
      return (g\<lparr>g_train_x := train_x', g_train_obj := train_obj',
                g_cumulative_cost := g_cumulative_cost g + cost, g_model := Some model'\<rparr>)))))))"

text \<open>
  Cell 11 resets the cost, draws new initial data and runs the loop with the
  \<^verbatim>\<open>N_ITER\<close> of cell 7; the other globals keep their values.
\<close>

definition cell_11 :: "env \<Rightarrow> string option \<Rightarrow> nb \<Rightarrow> nb run" where
  "cell_11 L SMOKE_TEST g =
     and_then (generate_initial_data L 16) (\<lambda>(x, obj).
     for_range (N_ITER SMOKE_TEST) (ei_iteration L)
       (g\<lparr>g_cumulative_cost := 0, g_train_x := x, g_train_obj := obj\<rparr>))"

text \<open>
  The whole notebook: the globals after cell 12 and the two recommendations. Cell 12 is
  the code of cell 9 again.
\<close>

definition notebook :: "env \<Rightarrow> string option \<Rightarrow> (nb \<times> tensor \<times> tensor) run" where
  "notebook L SMOKE_TEST =
     and_then (cell_6 L) (\<lambda>g.
     and_then (cell_7 L SMOKE_TEST g) (\<lambda>g.
     and_then (cell_9 L g) (\<lambda>rec_kg.
     and_then (cell_11 L SMOKE_TEST g) (\<lambda>g.
     and_then (cell_9 L g) (\<lambda>rec_ei.
     return (g, rec_kg, rec_ei))))))"

text \<open>
  The two phases of the notebook after the initial data: cells 7 and 9 (the
  knowledge-gradient loop and its recommendation) and cells 11 and 12 (the baseline loop
  and its recommendation), each with the globals it leaves and the point it recommends.
\<close>

definition kg_phase :: "env \<Rightarrow> string option \<Rightarrow> nb \<Rightarrow> (nb \<times> tensor) run" where
  "kg_phase L SMOKE_TEST g =
     and_then (cell_7 L SMOKE_TEST g) (\<lambda>g.
     and_then (cell_9 L g) (\<lambda>final_rec.
     return (g, final_rec)))"

definition baseline_phase :: "env \<Rightarrow> string option \<Rightarrow> nb \<Rightarrow> (nb \<times> tensor) run" where
  "baseline_phase L SMOKE_TEST g =
     and_then (cell_11 L SMOKE_TEST g) (\<lambda>g.
     and_then (cell_9 L g) (\<lambda>final_rec.
     return (g, final_rec)))"

section \<open>Notions used to state the properties\<close>

text \<open>
  The batches a run observed: the tensors it evaluated the test function on, in order.
\<close>

definition observed :: "call list \<Rightarrow> tensor list" where
  "observed cs = concat (map (\<lambda>c. case c of Call_problem X \<Rightarrow> [X] | _ \<Rightarrow> []) cs)"

text \<open>
  Modelled from the spec: \<^verbatim>\<open>optimize_acqf_mixed\<close> and \<^verbatim>\<open>optimize_acqf\<close> (botorch.optim.optimize)
  are not under src/. They "produce new candidate points": a call with batch size \<open>q\<close> that
  returns, returns \<open>q\<close> candidates.
\<close>

definition mixed_returns_q :: "env \<Rightarrow> bool" where
  "mixed_returns_q L \<longleftrightarrow>
     (\<forall>t a X v. optimize_acqf_mixed L t a = Inr (X, v) \<longrightarrow> length X = arg_q a)"

definition acqf_returns_q :: "env \<Rightarrow> bool" where
  "acqf_returns_q L \<longleftrightarrow>
     (\<forall>t a X v. optimize_acqf L t a = Inr (X, v) \<longrightarrow> length X = arg_q a)"

text \<open>
  \<^verbatim>\<open>torch.rand(n, d)\<close> returns a tensor of shape (n, d) with entries drawn from [0, 1).
\<close>

definition has_shape :: "tensor \<Rightarrow> nat \<Rightarrow> nat \<Rightarrow> bool" where
  "has_shape T n d \<longleftrightarrow> length T = n \<and> list_all (\<lambda>row. length row = d) T"

definition rand_shape :: "env \<Rightarrow> bool" where
  "rand_shape L \<longleftrightarrow>
     (\<forall>t n d X. torch_rand L t n d = Inr X \<longrightarrow>
        length X = n \<and> list_all (\<lambda>row. length row = d) X)"

definition rand_range :: "env \<Rightarrow> bool" where
  "rand_range L \<longleftrightarrow>
     (\<forall>t n d X. torch_rand L t n d = Inr X \<longrightarrow> list_all (list_all (\<lambda>x. 0 \<le> x \<and> x < 1)) X)"

text \<open>
  Modelled from the spec: the test function (botorch.test_functions.multi_fidelity) is
  not under src/. "Observations: scalar function outputs per point": one output per row.
\<close>

definition problem_length :: "env \<Rightarrow> bool" where
  "problem_length L \<longleftrightarrow> (\<forall>t X y. problem L t X = Inr y \<longrightarrow> length y = length X)"

text \<open>
  Modelled from the spec: the optimisers search "over a mixed discrete/continuous domain".
  A candidate lies within the bounds it was asked for (a tensor of two rows, the lower
  and the upper bounds), and a candidate of the mixed optimiser carries the values of one
  of the fixed-feature assignments it was given.
\<close>

definition within_bounds :: "tensor \<Rightarrow> real list \<Rightarrow> bool" where
  "within_bounds B row \<longleftrightarrow> list_all2 (\<le>) (B ! 0) row \<and> list_all2 (\<le>) row (B ! 1)"

definition has_fixed_features :: "(nat \<times> real) list \<Rightarrow> real list \<Rightarrow> bool" where
  "has_fixed_features ff row \<longleftrightarrow> list_all (\<lambda>(i, v). i < length row \<and> row ! i = v) ff"

definition mixed_in_domain :: "env \<Rightarrow> bool" where
  "mixed_in_domain L \<longleftrightarrow>
     (\<forall>t a X v. optimize_acqf_mixed L t a = Inr (X, v) \<longrightarrow>
        list_all (\<lambda>row. within_bounds (arg_bounds a) row
                    \<and> list_ex (\<lambda>ff. has_fixed_features ff row) (arg_fixed_features_list a)) X)"

definition acqf_in_bounds :: "env \<Rightarrow> bool" where
  "acqf_in_bounds L \<longleftrightarrow>
     (\<forall>t a X v. optimize_acqf L t a = Inr (X, v) \<longrightarrow> list_all (within_bounds (arg_bounds a)) X)"

text \<open>
  A row of the training inputs as the data model describes it: seven coordinates, the six
  design coordinates in [0, 1], the fidelity one of the three levels.
\<close>

definition valid_row :: "real list \<Rightarrow> bool" where
  "valid_row row \<longleftrightarrow>
     length row = 7 \<and> list_all (\<lambda>x. 0 \<le> x \<and> x \<le> 1) (take 6 row) \<and> row ! 6 \<in> {0.5, 0.75, 1.0}"

subsection \<open>A concrete library, for running the notebook\<close>

text \<open>
  A library whose random draws are constant (with the fidelity index cycling through the
  three levels), whose test function prefers low fidelities, and whose optimisers
  return the centre of the design space (at fidelity 0.75 for the mixed optimiser) when
  that point is feasible for the call, and raise otherwise.
\<close>

definition demo_env :: env where
  "demo_env = \<lparr>
     torch_rand = (\<lambda>t n d. Inr (replicate n (replicate d 0.25))),
     torch_randint = (\<lambda>t high n. Inr (map (\<lambda>i. i mod high) [0..<n])),
     problem = (\<lambda>t X. Inr (map (\<lambda>row. 2 - last row) X)),
     fit_hyperparameters = (\<lambda>t m. Inr [1]),
     optimize_acqf = (\<lambda>t a.
       if within_bounds (arg_bounds a) (replicate 6 0.5)
       then Inr (replicate (arg_q a) (replicate 6 0.5), 0)
       else Inl (LibraryError ''infeasible'')),
     gen_one_shot_kg_initial_conditions = (\<lambda>t a. Inr []),
     optimize_acqf_mixed = (\<lambda>t a.
       if within_bounds (arg_bounds a) (replicate 6 0.5 @ [0.75])
          \<and> list_ex (\<lambda>ff. has_fixed_features ff (replicate 6 0.5 @ [0.75]))
               (arg_fixed_features_list a)
       then Inr (replicate (arg_q a) (replicate 6 0.5 @ [0.75]), 0)
       else Inl (LibraryError ''infeasible''))\<rparr>"

text \<open>Globals with a single training point, at fidelity 0.5.\<close>

definition demo_globals :: nb where
  "demo_globals = \<lparr>g_train_x = [[0.25, 0.25, 0.25, 0.25, 0.25, 0.25, 0.5]],
     g_train_obj = [[1.5]], g_cumulative_cost = 7, g_model = None\<rparr>"

text \<open>A fitted model on a single training point.\<close>

definition demo_model :: gp where
  "demo_model = \<lparr>gp_train_X = [[0.25, 0.25, 0.25, 0.25, 0.25, 0.25, 0.5]],
     gp_train_Y = [[1.5]], gp_data_fidelity = 6, gp_hyperparameters = [1]\<rparr>"

text \<open>
  The incumbents of a run: the \<^verbatim>\<open>best_f\<close> of every expected-improvement acquisition function
  (as \<^verbatim>\<open>get_ei\<close> wraps it) that was handed to \<^verbatim>\<open>optimize_acqf\<close>, in order.
\<close>

definition incumbents :: "call list \<Rightarrow> real list" where
  "incumbents cs = concat (map (\<lambda>c. case c of
       Call_optimize_acqf a \<Rightarrow>
         (case arg_acq_function a of
            FixedFeatureAcquisitionFunction (qExpectedImprovement m best_f) d columns values
              \<Rightarrow> [best_f]
          | _ \<Rightarrow> [])
     | _ \<Rightarrow> []) cs)"

text \<open>
  The observations of a run: what the test function returned at each of its calls, in
  order, each shaped as the notebook shapes it (\<^verbatim>\<open>unsqueeze(-1)\<close>). The first call of the
  list is call number \<open>t\<close>.
\<close>

fun observations :: "env \<Rightarrow> nat \<Rightarrow> call list \<Rightarrow> tensor list" where
  "observations L t [] = []"
| "observations L t (c # cs) =
     (case c of
        Call_problem X \<Rightarrow> (case problem L t X of Inr y \<Rightarrow> [unsqueeze y] | Inl _ \<Rightarrow> [])
      | _ \<Rightarrow> []) @ observations L (Suc t) cs"

text \<open>
  The concrete library with a test function whose values rise with the call count: at
  call number \<open>t\<close> a point at fidelity \<open>s\<close> is observed as \<open>t - s\<close>.
\<close>

definition demo_env_rising :: env where
  "demo_env_rising = demo_env\<lparr>problem := (\<lambda>t X. Inr (map (\<lambda>row. real t - last row) X))\<rparr>"

subsection \<open>Libraries that differ at one call\<close>


text \<open>
  Two libraries are alike but for call number \<open>t\<close> when every routine gives the same
  result at every other call count; with \<open>Some e\<close> the second library moreover raises \<open>e\<close>
  at call number \<open>t\<close>, with \<open>None\<close> it may do anything there.
\<close>

definition oracle_alike ::
    "nat \<Rightarrow> error option \<Rightarrow> (nat \<Rightarrow> error + 'a) \<Rightarrow> (nat \<Rightarrow> error + 'a) \<Rightarrow> bool" where
  "oracle_alike t eo f f' \<longleftrightarrow>
     (\<forall>t'. t' \<noteq> t \<longrightarrow> f' t' = f t') \<and> (case eo of None \<Rightarrow> True | Some e \<Rightarrow> f' t = Inl e)"

definition envs_alike :: "nat \<Rightarrow> error option \<Rightarrow> env \<Rightarrow> env \<Rightarrow> bool" where
  "envs_alike t eo L L' \<longleftrightarrow>
     (\<forall>n d. oracle_alike t eo (\<lambda>t'. torch_rand L t' n d) (\<lambda>t'. torch_rand L' t' n d))
   \<and> (\<forall>h n. oracle_alike t eo (\<lambda>t'. torch_randint L t' h n) (\<lambda>t'. torch_randint L' t' h n))
   \<and> (\<forall>X. oracle_alike t eo (\<lambda>t'. problem L t' X) (\<lambda>t'. problem L' t' X))
   \<and> (\<forall>m. oracle_alike t eo (\<lambda>t'. fit_hyperparameters L t' m) (\<lambda>t'. fit_hyperparameters L' t' m))
   \<and> (\<forall>a. oracle_alike t eo (\<lambda>t'. optimize_acqf L t' a) (\<lambda>t'. optimize_acqf L' t' a))
   \<and> (\<forall>a. oracle_alike t eo (\<lambda>t'. gen_one_shot_kg_initial_conditions L t' a)
                             (\<lambda>t'. gen_one_shot_kg_initial_conditions L' t' a))
   \<and> (\<forall>a. oracle_alike t eo (\<lambda>t'. optimize_acqf_mixed L t' a) (\<lambda>t'. optimize_acqf_mixed L' t' a))"

text \<open>
  Two computations are alike but for call number \<open>t\<close>: whenever the first one completes,
  it has only extended the log, and the second one completes with the same result unless
  call number \<open>t\<close> falls within the run, in which case (with \<open>Some e\<close>) it raises \<open>e\<close> with
  the log of the first run up to and including call number \<open>t\<close>.
\<close>

definition alike :: "nat \<Rightarrow> error option \<Rightarrow> 'a run \<Rightarrow> 'a run \<Rightarrow> bool" where
  "alike t eo m m' \<longleftrightarrow>
     (\<forall>cs v cs'. m cs = Inr (v, cs') \<longrightarrow>
        length cs \<le> length cs' \<and> take (length cs) cs' = cs
      \<and> (if t < length cs \<or> length cs' \<le> t then m' cs = Inr (v, cs')
         else (case eo of None \<Rightarrow> True | Some e \<Rightarrow> m' cs = Inl (e, take (Suc t) cs'))))"

text \<open>
  The concrete library with other observations at call number 14, the observation of the
  last batch of a three-iteration loop started on an empty log.
\<close>

definition demo_env_other :: env where
  "demo_env_other = demo_env\<lparr>problem :=
     (\<lambda>t X. if t = 14 then Inr (map (\<lambda>row. 100) X) else problem demo_env t X)\<rparr>"

subsection \<open>The shape of a run\<close>

text \<open>The library routine behind a logged call, by its name in the notebook.\<close>

definition routine :: "call \<Rightarrow> string" where
  "routine c = (case c of
      Call_rand n d \<Rightarrow> ''torch.rand''
    | Call_randint h n \<Rightarrow> ''torch.randint''
    | Call_problem X \<Rightarrow> ''problem''
    | Call_fit_gpytorch_model m \<Rightarrow> ''fit_gpytorch_model''
    | Call_optimize_acqf a \<Rightarrow> ''optimize_acqf''
    | Call_gen_one_shot_kg_initial_conditions a \<Rightarrow> ''gen_one_shot_kg_initial_conditions''
    | Call_optimize_acqf_mixed a \<Rightarrow> ''optimize_acqf_mixed'')"

text \<open>
  The size parameters of an optimisation call: the routine with its batch size \<^verbatim>\<open>q\<close>,
  \<^verbatim>\<open>num_restarts\<close> and \<^verbatim>\<open>raw_samples\<close>.
\<close>

definition counts :: "call \<Rightarrow> (string \<times> nat \<times> nat \<times> nat) list" where
  "counts c = (case c of
      Call_optimize_acqf a \<Rightarrow> [(routine c, arg_q a, arg_num_restarts a, arg_raw_samples a)]
    | Call_gen_one_shot_kg_initial_conditions a \<Rightarrow>
        [(routine c, arg_q a, arg_num_restarts a, arg_raw_samples a)]
    | Call_optimize_acqf_mixed a \<Rightarrow>
        [(routine c, arg_q a, arg_num_restarts a, arg_raw_samples a)]
    | _ \<Rightarrow> [])"

text \<open>
  The loop body both loops share: build and fit the model on the current training data,
  obtain a batch with its observations and cost from \<open>acquire\<close>, append both and add the
  cost.
\<close>

definition bo_iteration ::
    "env \<Rightarrow> (gp \<Rightarrow> tensor \<Rightarrow> (tensor \<times> tensor \<times> real) run) \<Rightarrow> nb \<Rightarrow> nb run" where
  "bo_iteration L acquire g =
     (case initialize_model (g_train_x g) (g_train_obj g) of (m, _) \<Rightarrow>
      and_then (fit_gpytorch_model L m) (\<lambda>model'.
      and_then (acquire model' (g_train_obj g)) (\<lambda>(new_x, new_obj, cost).
      and_then (lift (cat_dim0 (g_train_x g) new_x)) (\<lambda>train_x'.
      and_then (lift (cat_dim0 (g_train_obj g) new_obj)) (\<lambda>train_obj'.
      return (g\<lparr>g_train_x := train_x', g_train_obj := train_obj',
                g_cumulative_cost := g_cumulative_cost g + cost, g_model := Some model'\<rparr>))))))"

text \<open>How the two loops obtain a batch from the fitted model and the observations so far.\<close>

definition kg_acquire ::
    "env \<Rightarrow> string option \<Rightarrow> gp \<Rightarrow> tensor \<Rightarrow> (tensor \<times> tensor \<times> real) run" where
  "kg_acquire L SMOKE_TEST model' obj =
     and_then (get_mfkg L SMOKE_TEST model') (optimize_mfkg_and_get_observation L SMOKE_TEST)"

definition ei_acquire :: "env \<Rightarrow> gp \<Rightarrow> tensor \<Rightarrow> (tensor \<times> tensor \<times> real) run" where
  "ei_acquire L model' obj =
     and_then (lift (tensor_max obj))
       (\<lambda>best_f. optimize_ei_and_get_observation L (get_ei model' best_f))"

text \<open>
  Stages 3 to 7 with \<open>acquire\<close> for stages 4 and 5: the cost is reset, the shared loop body
  runs \<^verbatim>\<open>N_ITER\<close> times, and the recommendation of cell 9 follows.
\<close>

definition bo_phase ::
    "env \<Rightarrow> string option \<Rightarrow> (gp \<Rightarrow> tensor \<Rightarrow> (tensor \<times> tensor \<times> real) run) \<Rightarrow> nb
       \<Rightarrow> (nb \<times> tensor) run" where
  "bo_phase L SMOKE_TEST acquire g =
     and_then (for_range (N_ITER SMOKE_TEST) (bo_iteration L acquire)
                 (g\<lparr>g_cumulative_cost := 0\<rparr>)) (\<lambda>g.
     and_then (cell_9 L g) (\<lambda>final_rec.
     return (g, final_rec)))"

text \<open>
  An acquisition function as \<^verbatim>\<open>get_ei\<close> builds it, and a call as the baseline loop makes it:
  no call of the knowledge-gradient optimisers, and \<^verbatim>\<open>optimize_acqf\<close> only on such an
  acquisition function, over the six design coordinates, with batch size 4.
\<close>

definition is_get_ei :: "acqf \<Rightarrow> bool" where
  "is_get_ei acq = (case acq of
      FixedFeatureAcquisitionFunction (qExpectedImprovement m best_f) d columns values \<Rightarrow>
        d = 7 \<and> columns = [6] \<and> values = [1]
    | _ \<Rightarrow> False)"

definition baseline_call :: "call \<Rightarrow> bool" where
  "baseline_call c = (case c of
      Call_optimize_acqf a \<Rightarrow>
        is_get_ei (arg_acq_function a) \<and> arg_bounds a = drop_last_column bounds
        \<and> arg_q a = 4
    | Call_gen_one_shot_kg_initial_conditions a \<Rightarrow> False
    | Call_optimize_acqf_mixed a \<Rightarrow> False
    | _ \<Rightarrow> True)"

subsection \<open>The baseline as the specification words it\<close>

text \<open>
  "Baseline comparison: repeat steps 3-7 using a standard expected-improvement acquisition
  function instead of knowledge gradient." Read literally: the loop body of cell 7 with
  the expected-improvement acquisition function in the place of the knowledge-gradient
  one, everything else unchanged, run on the globals as the first phase left them and
  followed by the recommendation.
\<close>

definition spec_baseline_iteration :: "env \<Rightarrow> string option \<Rightarrow> nb \<Rightarrow> nb run" where
  "spec_baseline_iteration L SMOKE_TEST g =
     (case initialize_model (g_train_x g) (g_train_obj g) of (m, _) \<Rightarrow>
      and_then (fit_gpytorch_model L m) (\<lambda>model'.
      and_then (lift (tensor_max (g_train_obj g))) (\<lambda>best_f.
      and_then (optimize_mfkg_and_get_observation L SMOKE_TEST (get_ei model' best_f))
        (\<lambda>(new_x, new_obj, cost).
      and_then (lift (cat_dim0 (g_train_x g) new_x)) (\<lambda>train_x'.
      and_then (lift (cat_dim0 (g_train_obj g) new_obj)) (\<lambda>train_obj'.
      return (g\<lparr>g_train_x := train_x', g_train_obj := train_obj',
                g_cumulative_cost := g_cumulative_cost g + cost, g_model := Some model'\<rparr>)))))))"

definition spec_notebook :: "env \<Rightarrow> string option \<Rightarrow> (nb \<times> tensor \<times> tensor) run" where
  "spec_notebook L SMOKE_TEST =
     and_then (cell_6 L) (\<lambda>g.
     and_then (cell_7 L SMOKE_TEST g) (\<lambda>g.
     and_then (cell_9 L g) (\<lambda>rec_kg.
     and_then (for_range (N_ITER SMOKE_TEST) (spec_baseline_iteration L SMOKE_TEST)
                 (g\<lparr>g_cumulative_cost := 0\<rparr>)) (\<lambda>g.
     and_then (cell_9 L g) (\<lambda>rec_ei.
     return (g, rec_kg, rec_ei))))))"

section \<open>Properties\<close>

subsection \<open>Successful runs, step by step\<close>

lemma return_Inr: "return v cs = Inr r \<longleftrightarrow> r = (v, cs)"
  by (auto simp: return_def)

lemma lift_Inr: "lift x cs = Inr r \<longleftrightarrow> (\<exists>v. x = Inr v \<and> r = (v, cs))"
  by (auto simp: lift_def split: sum.splits)

lemma library_Inr:
  "library c f cs = Inr r \<longleftrightarrow> (\<exists>v. f (length cs) = Inr v \<and> r = (v, cs @ [c]))"
  by (auto simp: library_def split: sum.splits)

lemma and_then_Inr:
  "and_then m f cs = Inr r \<longleftrightarrow> (\<exists>v cs1. m cs = Inr (v, cs1) \<and> f v cs1 = Inr r)"
  by (auto simp: and_then_def split: sum.splits)

lemmas run_Inr = and_then_Inr library_Inr lift_Inr return_Inr

lemma observed_append: "observed (xs @ ys) = observed xs @ observed ys"
  by (simp add: observed_def)

lemma sum_list_unit_rows: "sum_list (concat (map (\<lambda>row. [f row]) X)) = sum_list (map f X)"
  by (induction X) auto

lemma cost_model_Inr:
  assumes "cost_model X = Inr C"
  shows "list_all (\<lambda>row. 6 < length row) X \<and> tensor_sum C = (\<Sum>row\<leftarrow>X. 5 + row ! 6)"
  using assms
  by (auto simp: cost_model_def AffineFidelityCostModel_def tensor_sum_def sum_list_unit_rows
      split: if_splits)

lemma cat_dim0_Inr: "cat_dim0 A B = Inr C \<Longrightarrow> C = A @ B"
  by (auto simp: cat_dim0_def split: if_splits)

lemma mixed_returns_qD:
  "mixed_returns_q L \<Longrightarrow> optimize_acqf_mixed L t a = Inr (X, v) \<Longrightarrow> length X = arg_q a"
  unfolding mixed_returns_q_def by blast

lemma acqf_returns_qD:
  "acqf_returns_q L \<Longrightarrow> optimize_acqf L t a = Inr (X, v) \<Longrightarrow> length X = arg_q a"
  unfolding acqf_returns_q_def by blast

text \<open>What a successful call of each notebook function has done.\<close>

lemma fit_gpytorch_model_Inr:
  assumes "fit_gpytorch_model L (fst (initialize_model X Y)) cs = Inr (m, cs')"
  obtains h where
    "fit_hyperparameters L (length cs) (snd (initialize_model X Y)) = Inr h"
    "m = (snd (initialize_model X Y))\<lparr>gp_hyperparameters := h\<rparr>"
    "cs' = cs @ [Call_fit_gpytorch_model (snd (initialize_model X Y))]"
  using assms
  by (auto simp: fit_gpytorch_model_def initialize_model_def Let_def run_Inr)

lemma get_mfkg_Inr:
  assumes "get_mfkg L S m cs = Inr (acq, cs')"
  obtains X v where
    "optimize_acqf L (length cs)
       \<lparr>arg_acq_function = FixedFeatureAcquisitionFunction (PosteriorMean m) 7 [6] [1],
        arg_bounds = drop_last_column bounds, arg_q = 1,
        arg_num_restarts = (if \<not> truthy S then 10 else 2),
        arg_raw_samples = (if \<not> truthy S then 1024 else 4),
        arg_batch_limit = 10, arg_maxiter = 200\<rparr> = Inr (X, v)"
    "acq = qMultiFidelityKnowledgeGradient m (if \<not> truthy S then 128 else 2) v"
    "cs' = cs @ [Call_optimize_acqf
       \<lparr>arg_acq_function = FixedFeatureAcquisitionFunction (PosteriorMean m) 7 [6] [1],
        arg_bounds = drop_last_column bounds, arg_q = 1,
        arg_num_restarts = (if \<not> truthy S then 10 else 2),
        arg_raw_samples = (if \<not> truthy S then 1024 else 4),
        arg_batch_limit = 10, arg_maxiter = 200\<rparr>]"
  using assms
  by (auto simp: get_mfkg_def Let_def run_Inr)

lemma optimize_mfkg_Inr:
  assumes "optimize_mfkg_and_get_observation L S acq cs = Inr ((new_x, new_obj, cost), cs')"
  obtains X_init v costs y where
    "gen_one_shot_kg_initial_conditions L (length cs)
       \<lparr>arg_acq_function = acq, arg_bounds = bounds, arg_q = 4,
        arg_num_restarts = 10, arg_raw_samples = 512\<rparr> = Inr X_init"
    "optimize_acqf_mixed L (Suc (length cs))
       \<lparr>arg_acq_function = acq, arg_bounds = bounds, arg_q = 4,
        arg_num_restarts = NUM_RESTARTS S, arg_raw_samples = RAW_SAMPLES S,
        arg_batch_limit = 5, arg_maxiter = 200,
        arg_fixed_features_list = [[(6, 0.5)], [(6, 0.75)], [(6, 1.0)]],
        arg_batch_initial_conditions = X_init\<rparr> = Inr (new_x, v)"
    "cost_model new_x = Inr costs"
    "cost = tensor_sum costs"
    "problem L (Suc (Suc (length cs))) new_x = Inr y"
    "new_obj = unsqueeze y"
    "cs' = cs @ [Call_gen_one_shot_kg_initial_conditions
                   \<lparr>arg_acq_function = acq, arg_bounds = bounds, arg_q = 4,
                    arg_num_restarts = 10, arg_raw_samples = 512\<rparr>,
                 Call_optimize_acqf_mixed
                   \<lparr>arg_acq_function = acq, arg_bounds = bounds, arg_q = 4,
                    arg_num_restarts = NUM_RESTARTS S, arg_raw_samples = RAW_SAMPLES S,
                    arg_batch_limit = 5, arg_maxiter = 200,
                    arg_fixed_features_list = [[(6, 0.5)], [(6, 0.75)], [(6, 1.0)]],
                    arg_batch_initial_conditions = X_init\<rparr>,
                 Call_problem new_x]"
  using assms
  unfolding optimize_mfkg_and_get_observation_def Let_def
  by (auto simp: run_Inr)

lemma mfkg_iteration_Inr:
  assumes "mfkg_iteration L S g cs = Inr (g', cs')"
  obtains m acq new_x new_obj cost cs1 cs2 where
    "fit_gpytorch_model L (fst (initialize_model (g_train_x g) (g_train_obj g))) cs = Inr (m, cs1)"
    "get_mfkg L S m cs1 = Inr (acq, cs2)"
    "optimize_mfkg_and_get_observation L S acq cs2 = Inr ((new_x, new_obj, cost), cs')"
    "cat_dim0 (g_train_x g) new_x = Inr (g_train_x g @ new_x)"
    "cat_dim0 (g_train_obj g) new_obj = Inr (g_train_obj g @ new_obj)"
    "g' = g\<lparr>g_train_x := g_train_x g @ new_x, g_train_obj := g_train_obj g @ new_obj,
             g_cumulative_cost := g_cumulative_cost g + cost, g_model := Some m\<rparr>"
proof -
  obtain mll0 m0 where init: "initialize_model (g_train_x g) (g_train_obj g) = (mll0, m0)"
    by (cases "initialize_model (g_train_x g) (g_train_obj g)")
  from assms init obtain m cs1 acq cs2 new_x new_obj cost X' Y' where
    f: "fit_gpytorch_model L mll0 cs = Inr (m, cs1)"
       "get_mfkg L S m cs1 = Inr (acq, cs2)"
       "optimize_mfkg_and_get_observation L S acq cs2 = Inr ((new_x, new_obj, cost), cs')"
       "cat_dim0 (g_train_x g) new_x = Inr X'"
       "cat_dim0 (g_train_obj g) new_obj = Inr Y'"
       "g' = g\<lparr>g_train_x := X', g_train_obj := Y',
                g_cumulative_cost := g_cumulative_cost g + cost, g_model := Some m\<rparr>"
    unfolding mfkg_iteration_def by (auto simp: run_Inr)
  from f(4,5) have "X' = g_train_x g @ new_x" "Y' = g_train_obj g @ new_obj"
    by (auto dest: cat_dim0_Inr)
  with f init show ?thesis
    by (intro that[of m cs1 acq cs2 new_x new_obj cost]) simp_all
qed

lemma index_fidelities_Inr:
  assumes "index_fidelities idx = Inr F"
  shows "list_all (\<lambda>i. i < 3) idx \<and> F = map (\<lambda>i. [fidelities ! i]) idx"
proof -
  have "length fidelities = 3" by (simp add: fidelities_def)
  with assms show ?thesis by (auto simp: index_fidelities_def split: if_splits)
qed

lemma cat_dim1_Inr:
  assumes "cat_dim1 A B = Inr C"
  shows "length A = length B \<and> C = map2 (@) A B"
  using assms by (auto simp: cat_dim1_def split: if_splits)

lemma generate_initial_data_Inr:
  assumes "generate_initial_data L n cs = Inr ((X, Y), cs')"
  obtains U idx y where
    "torch_rand L (length cs) n 6 = Inr U"
    "torch_randint L (Suc (length cs)) 3 n = Inr idx"
    "list_all (\<lambda>i. i < 3) idx"
    "length U = length idx"
    "X = map2 (@) U (map (\<lambda>i. [fidelities ! i]) idx)"
    "problem L (Suc (Suc (length cs))) X = Inr y"
    "Y = unsqueeze y"
    "cs' = cs @ [Call_rand n 6, Call_randint 3 n, Call_problem X]"
proof -
  from assms obtain U idx F y where
    a: "torch_rand L (length cs) n 6 = Inr U"
       "torch_randint L (Suc (length cs)) 3 n = Inr idx"
       "index_fidelities idx = Inr F"
       "cat_dim1 U F = Inr X"
       "problem L (Suc (Suc (length cs))) X = Inr y"
       "Y = unsqueeze y"
       "cs' = cs @ [Call_rand n 6, Call_randint 3 n, Call_problem X]"
    unfolding generate_initial_data_def by (auto simp: run_Inr)
  from index_fidelities_Inr[OF a(3)] cat_dim1_Inr[OF a(4)] a show ?thesis
    by (intro that[of U idx y]) simp_all
qed

lemma list_all_map2:
  assumes "\<And>a b. a \<in> set A \<Longrightarrow> b \<in> set B \<Longrightarrow> P (f a b)"
  shows "list_all P (map2 f A B)"
  using assms by (auto simp: list_all_iff dest: set_zip_leftD set_zip_rightD)

lemma for_range_counting:
  assumes "for_range n body s cs = Inr (s', cs')" and "Q i s"
    and "\<And>j s cs s' cs'. Q j s \<Longrightarrow> body s cs = Inr (s', cs') \<Longrightarrow> Q (Suc j) s'"
  shows "Q (i + n) s'"
  using assms(1,2)
proof (induction n arbitrary: s cs i)
  case 0
  then show ?case by (simp add: return_Inr)
next
  case (Suc n)
  from Suc.prems(1) obtain s1 cs1 where
    "body s cs = Inr (s1, cs1)" "for_range n body s1 cs1 = Inr (s', cs')"
    by (auto simp: and_then_Inr)
  with Suc.IH[of s1 cs1 "Suc i"] assms(3)[OF Suc.prems(2)] show ?case by simp
qed

lemma upt_7: "[0..<7] = [0, 1, 2, 3, 4, 5, 6]"
  by code_simp

lemma fill_row_fidelity:
  assumes "length row = 6"
  shows "fill_row [0..<7] [6] [v] row = row @ [v]"
proof -
  from assms obtain a b c d e f where "row = [a, b, c, d, e, f]"
    by (auto simp: length_Suc_conv eval_nat_numeral)
  then show ?thesis by (simp add: upt_7)
qed

lemma construct_X_full_Inr:
  assumes "construct_X_full 7 [6] [v] X = Inr Z"
  shows "list_all (\<lambda>row. length row = 6) X \<and> Z = map (\<lambda>row. row @ [v]) X"
proof -
  from assms have w: "list_all (\<lambda>row. length row = 6) X"
    and Z: "Z = map (fill_row [0..<7] [6] [v]) X"
    by (auto simp: construct_X_full_def list_all_iff split: if_splits)
  from w have "map (fill_row [0..<7] [6] [v]) X = map (\<lambda>row. row @ [v]) X"
    by (intro map_cong) (auto simp: list_all_iff fill_row_fidelity)
  with w Z show ?thesis by simp
qed

lemma optimize_ei_Inr:
  assumes "optimize_ei_and_get_observation L (get_ei m b) cs = Inr ((new_x, new_obj, cost), cs')"
  obtains X v costs y where
    "optimize_acqf L (length cs)
       \<lparr>arg_acq_function = get_ei m b, arg_bounds = drop_last_column bounds, arg_q = 4,
        arg_num_restarts = 10, arg_raw_samples = 512,
        arg_batch_limit = 5, arg_maxiter = 200\<rparr> = Inr (X, v)"
    "construct_X_full 7 [6] [1] X = Inr new_x"
    "cost_model new_x = Inr costs"
    "cost = tensor_sum costs"
    "problem L (Suc (length cs)) new_x = Inr y"
    "new_obj = unsqueeze y"
    "cs' = cs @ [Call_optimize_acqf
                   \<lparr>arg_acq_function = get_ei m b, arg_bounds = drop_last_column bounds,
                    arg_q = 4, arg_num_restarts = 10, arg_raw_samples = 512,
                    arg_batch_limit = 5, arg_maxiter = 200\<rparr>,
                 Call_problem new_x]"
  using assms
  unfolding optimize_ei_and_get_observation_def Let_def
  by (auto simp: run_Inr get_ei_def)

lemma ei_iteration_Inr:
  assumes "ei_iteration L g cs = Inr (g', cs')"
  obtains m best_f new_x new_obj cost cs1 where
    "fit_gpytorch_model L (fst (initialize_model (g_train_x g) (g_train_obj g))) cs = Inr (m, cs1)"
    "tensor_max (g_train_obj g) = Inr best_f"
    "optimize_ei_and_get_observation L (get_ei m best_f) cs1 = Inr ((new_x, new_obj, cost), cs')"
    "cat_dim0 (g_train_x g) new_x = Inr (g_train_x g @ new_x)"
    "cat_dim0 (g_train_obj g) new_obj = Inr (g_train_obj g @ new_obj)"
    "g' = g\<lparr>g_train_x := g_train_x g @ new_x, g_train_obj := g_train_obj g @ new_obj,
             g_cumulative_cost := g_cumulative_cost g + cost, g_model := Some m\<rparr>"
proof -
  obtain mll0 m0 where init: "initialize_model (g_train_x g) (g_train_obj g) = (mll0, m0)"
    by (cases "initialize_model (g_train_x g) (g_train_obj g)")
  from assms init obtain m cs1 best_f new_x new_obj cost X' Y' where
    f: "fit_gpytorch_model L mll0 cs = Inr (m, cs1)"
       "tensor_max (g_train_obj g) = Inr best_f"
       "optimize_ei_and_get_observation L (get_ei m best_f) cs1
          = Inr ((new_x, new_obj, cost), cs')"
       "cat_dim0 (g_train_x g) new_x = Inr X'"
       "cat_dim0 (g_train_obj g) new_obj = Inr Y'"
       "g' = g\<lparr>g_train_x := X', g_train_obj := Y',
                g_cumulative_cost := g_cumulative_cost g + cost, g_model := Some m\<rparr>"
    unfolding ei_iteration_def by (auto simp: run_Inr)
  from f(4,5) have "X' = g_train_x g @ new_x" "Y' = g_train_obj g @ new_obj"
    by (auto dest: cat_dim0_Inr)
  with f init show ?thesis
    by (intro that[of m cs1 best_f new_x new_obj cost]) simp_all
qed

lemma get_recommendation_Inr:
  assumes "get_recommendation L m cs = Inr (final_rec, cs')"
  obtains X v y where
    "optimize_acqf L (length cs)
       \<lparr>arg_acq_function = FixedFeatureAcquisitionFunction (PosteriorMean m) 7 [6] [1],
        arg_bounds = drop_last_column bounds, arg_q = 1,
        arg_num_restarts = 10, arg_raw_samples = 512,
        arg_batch_limit = 5, arg_maxiter = 200\<rparr> = Inr (X, v)"
    "construct_X_full 7 [6] [1] X = Inr final_rec"
    "problem L (Suc (length cs)) final_rec = Inr y"
    "cs' = cs @ [Call_optimize_acqf
                   \<lparr>arg_acq_function = FixedFeatureAcquisitionFunction (PosteriorMean m) 7 [6] [1],
                    arg_bounds = drop_last_column bounds, arg_q = 1,
                    arg_num_restarts = 10, arg_raw_samples = 512,
                    arg_batch_limit = 5, arg_maxiter = 200\<rparr>,
                 Call_problem final_rec]"
  using assms
  unfolding get_recommendation_def Let_def
  by (auto simp: run_Inr)

lemma for_range_invariant:
  assumes "for_range n body s cs = Inr (s', cs')" and "P s"
    and "\<And>s cs s' cs'. P s \<Longrightarrow> body s cs = Inr (s', cs') \<Longrightarrow> P s'"
  shows "P s'"
  using for_range_counting[where Q = "\<lambda>_. P", OF assms(1) assms(2)] assms(3) by blast

subsection \<open>The cumulative cost of the multi-fidelity loop\<close>

lemma mfkg_iteration_cost:
  assumes "mfkg_iteration L S g cs = Inr (g', cs')"
  shows "\<exists>new_x calls. cs' = cs @ calls \<and> observed calls = [new_x]
     \<and> g_train_x g' = g_train_x g @ new_x
     \<and> list_all (\<lambda>row. 6 < length row) new_x
     \<and> g_cumulative_cost g' = g_cumulative_cost g + (\<Sum>row\<leftarrow>new_x. 5 + row ! 6)
     \<and> (mixed_returns_q L \<longrightarrow> length new_x = 4)"
proof -
  from assms obtain m acq new_x new_obj cost cs1 cs2 where
    fit: "fit_gpytorch_model L (fst (initialize_model (g_train_x g) (g_train_obj g))) cs
            = Inr (m, cs1)" and
    kg: "get_mfkg L S m cs1 = Inr (acq, cs2)" and
    opt: "optimize_mfkg_and_get_observation L S acq cs2 = Inr ((new_x, new_obj, cost), cs')" and
    g': "g' = g\<lparr>g_train_x := g_train_x g @ new_x, g_train_obj := g_train_obj g @ new_obj,
                g_cumulative_cost := g_cumulative_cost g + cost, g_model := Some m\<rparr>"
    by (rule mfkg_iteration_Inr)
  from fit obtain c1 where c1: "cs1 = cs @ [c1]" "observed [c1] = []"
    by (rule fit_gpytorch_model_Inr) (simp add: observed_def)
  from kg obtain c2 where c2: "cs2 = cs1 @ [c2]" "observed [c2] = []"
    by (rule get_mfkg_Inr) (simp add: observed_def)
  from opt obtain c3 c4 a v costs where
    o: "cs' = cs2 @ [c3, c4, Call_problem new_x]" "observed [c3, c4] = []"
       "optimize_acqf_mixed L (Suc (length cs2)) a = Inr (new_x, v)" "arg_q a = 4"
       "cost_model new_x = Inr costs" "cost = tensor_sum costs"
    by (rule optimize_mfkg_Inr) (simp add: observed_def)
  have "cs' = cs @ [c1, c2, c3, c4, Call_problem new_x]"
    using c1 c2 o by simp
  moreover have "observed [c1, c2, c3, c4, Call_problem new_x] = [new_x]"
    using c1(2) c2(2) o(2) by (simp add: observed_def)
  moreover have "mixed_returns_q L \<longrightarrow> length new_x = 4"
    using mixed_returns_qD[OF _ o(3)] o(4) by simp
  ultimately show ?thesis
    using cost_model_Inr[OF o(5)] o(6) g' by auto
qed

lemma for_range_mfkg_cost:
  assumes "for_range n (mfkg_iteration L S) g cs = Inr (g', cs')"
  shows "\<exists>calls. cs' = cs @ calls \<and> length (observed calls) = n
     \<and> g_train_x g' = g_train_x g @ concat (observed calls)
     \<and> list_all (list_all (\<lambda>row. 6 < length row)) (observed calls)
     \<and> g_cumulative_cost g' =
         g_cumulative_cost g + (\<Sum>B\<leftarrow>observed calls. \<Sum>row\<leftarrow>B. 5 + row ! 6)
     \<and> (mixed_returns_q L \<longrightarrow> list_all (\<lambda>B. length B = 4) (observed calls))"
  using assms
proof (induction n arbitrary: g cs)
  case 0
  then show ?case by (simp add: return_Inr observed_def)
next
  case (Suc n)
  from Suc.prems obtain g1 cs1 where
    step: "mfkg_iteration L S g cs = Inr (g1, cs1)" and
    rest: "for_range n (mfkg_iteration L S) g1 cs1 = Inr (g', cs')"
    by (auto simp: and_then_Inr)
  from mfkg_iteration_cost[OF step] obtain new_x calls1 where
    s: "cs1 = cs @ calls1" "observed calls1 = [new_x]"
       "g_train_x g1 = g_train_x g @ new_x"
       "list_all (\<lambda>row. 6 < length row) new_x"
       "g_cumulative_cost g1 = g_cumulative_cost g + (\<Sum>row\<leftarrow>new_x. 5 + row ! 6)"
       "mixed_returns_q L \<longrightarrow> length new_x = 4"
    by blast
  from Suc.IH[OF rest] obtain calls2 where
    r: "cs' = cs1 @ calls2" "length (observed calls2) = n"
       "g_train_x g' = g_train_x g1 @ concat (observed calls2)"
       "list_all (list_all (\<lambda>row. 6 < length row)) (observed calls2)"
       "g_cumulative_cost g' =
          g_cumulative_cost g1 + (\<Sum>B\<leftarrow>observed calls2. \<Sum>row\<leftarrow>B. 5 + row ! 6)"
       "mixed_returns_q L \<longrightarrow> list_all (\<lambda>B. length B = 4) (observed calls2)"
    by blast
  have "observed (calls1 @ calls2) = new_x # observed calls2"
    using s(2) by (simp add: observed_append)
  then show ?case
    using s r by (intro exI[of _ "calls1 @ calls2"]) simp
qed

lemma demo_mixed_returns_q: "mixed_returns_q demo_env"
  by (auto simp: mixed_returns_q_def demo_env_def split: if_splits)

lemma demo_acqf_returns_q: "acqf_returns_q demo_env"
  by (auto simp: acqf_returns_q_def demo_env_def split: if_splits)

lemma demo_cell_7_runs:
  "case cell_7 demo_env None demo_globals [] of Inl _ \<Rightarrow> False | Inr (g', cs') \<Rightarrow>
     g_cumulative_cost g' = 69 \<and> length (g_train_x g') = 13"
  by code_simp

text \<open>
  Claim C1. Whenever the loop of cell 7 completes, the batches it observed (the tensors the
  test function was evaluated on since the loop began) are \<^verbatim>\<open>N_ITER\<close> in number, they are
  what was appended to \<^verbatim>\<open>train_x\<close>, every row of them has a 7th coordinate, and the cumulative
  cost is the sum over the batches of the sum over their rows of 5.0 plus the 7th
  coordinate. When the mixed optimiser returns as many candidates as the batch size it is
  called with, every batch has 4 rows.
\<close>

theorem cumulative_cost_is_sum_of_affine_costs:
  assumes "cell_7 L SMOKE_TEST g cs = Inr (g', cs')"
  shows "let batches = observed (drop (length cs) cs') in
           length batches = N_ITER SMOKE_TEST
         \<and> g_train_x g' = g_train_x g @ concat batches
         \<and> list_all (list_all (\<lambda>row. 6 < length row)) batches
         \<and> g_cumulative_cost g' = (\<Sum>B\<leftarrow>batches. \<Sum>row\<leftarrow>B. 5.0 + row ! 6)
         \<and> (mixed_returns_q L \<longrightarrow> list_all (\<lambda>B. length B = 4) batches)"
proof -
  from assms have
    "for_range (N_ITER SMOKE_TEST) (mfkg_iteration L SMOKE_TEST) (g\<lparr>g_cumulative_cost := 0\<rparr>) cs
       = Inr (g', cs')"
    by (simp add: cell_7_def)
  from for_range_mfkg_cost[OF this] show ?thesis
    by (auto simp: Let_def)
qed

theorem cumulative_cost_is_sum_of_affine_costs_witness:
  "\<exists>g' cs'. cell_7 demo_env None demo_globals [] = Inr (g', cs')
     \<and> mixed_returns_q demo_env
     \<and> g_cumulative_cost g' = 69
     \<and> (let batches = observed (drop (length ([]::call list)) cs') in
           length batches = N_ITER None
         \<and> g_train_x g' = g_train_x demo_globals @ concat batches
         \<and> list_all (list_all (\<lambda>row. 6 < length row)) batches
         \<and> g_cumulative_cost g' = (\<Sum>B\<leftarrow>batches. \<Sum>row\<leftarrow>B. 5.0 + row ! 6)
         \<and> list_all (\<lambda>B. length B = 4) batches)"
proof -
  obtain g' cs' where run: "cell_7 demo_env None demo_globals [] = Inr (g', cs')"
    and c: "g_cumulative_cost g' = 69"
    using demo_cell_7_runs by (auto split: sum.splits)
  show ?thesis
    using cumulative_cost_is_sum_of_affine_costs[OF run] run c demo_mixed_returns_q
    by (auto simp: Let_def)
qed

subsection \<open>The rows of the training inputs\<close>

lemma fidelities_nth: "i < 3 \<Longrightarrow> fidelities ! i \<in> {0.5, 0.75, 1.0}"
  by (auto simp: fidelities_def nth_Cons' )

lemma initial_rows_valid:
  assumes "rand_shape L" "rand_range L" "generate_initial_data L n cs = Inr ((X, Y), cs')"
  shows "list_all valid_row X"
proof -
  from assms(3) obtain U idx where
    U: "torch_rand L (length cs) n 6 = Inr U" and
    idx: "list_all (\<lambda>i. i < 3) idx" "length U = length idx" and
    X: "X = map2 (@) U (map (\<lambda>i. [fidelities ! i]) idx)"
    by (rule generate_initial_data_Inr)
  from assms(1) U have w: "list_all (\<lambda>row. length row = 6) U"
    unfolding rand_shape_def by blast
  from assms(2) U have r: "list_all (list_all (\<lambda>x. 0 \<le> x \<and> x < 1)) U"
    unfolding rand_range_def by blast
  have "valid_row (u @ [fidelities ! i])" if "u \<in> set U" "i \<in> set idx" for u i
  proof -
    from that w r idx have "length u = 6" "list_all (\<lambda>x. 0 \<le> x \<and> x < 1) u" "i < 3"
      by (auto simp: list_all_iff)
    then show ?thesis
      using fidelities_nth[of i] by (auto simp: valid_row_def list_all_iff nth_append)
  qed
  then show ?thesis
    unfolding X by (intro list_all_map2) auto
qed


lemma list_all2_replicate_left:
  "list_all2 P (replicate n c) row \<longleftrightarrow> length row = n \<and> (\<forall>x\<in>set row. P c x)"
  by (auto simp: list_all2_conv_all_nth all_set_conv_all_nth)

lemma list_all2_replicate_right:
  "list_all2 P row (replicate n c) \<longleftrightarrow> length row = n \<and> (\<forall>x\<in>set row. P x c)"
  by (auto simp: list_all2_conv_all_nth all_set_conv_all_nth)

lemma within_bounds_unit_cube:
  "within_bounds [replicate n 0, replicate n 1] row \<longleftrightarrow>
     length row = n \<and> (\<forall>x\<in>set row. 0 \<le> x \<and> x \<le> 1)"
  by (auto simp: within_bounds_def list_all2_replicate_left list_all2_replicate_right)

lemma drop_last_column_bounds: "drop_last_column bounds = [replicate 6 0, replicate 6 1]"
  by (simp add: drop_last_column_def bounds_def butlast_conv_take)

lemma mixed_row_valid:
  assumes "within_bounds bounds row"
    and "list_ex (\<lambda>ff. has_fixed_features ff row) [[(6, 0.5)], [(6, 0.75)], [(6, 1.0)]]"
  shows "valid_row row"
proof -
  from assms(1) have "length row = 7" "\<forall>x\<in>set row. 0 \<le> x \<and> x \<le> 1"
    by (simp_all add: bounds_def within_bounds_unit_cube)
  moreover from this have "\<forall>x\<in>set (take 6 row). 0 \<le> x \<and> x \<le> 1"
    by (meson in_set_takeD)
  moreover from assms(2) have "row ! 6 \<in> {0.5, 0.75, 1.0}"
    by (auto simp: has_fixed_features_def)
  ultimately show ?thesis by (simp add: valid_row_def list_all_iff)
qed

lemma ei_row_valid:
  assumes "within_bounds (drop_last_column bounds) row"
  shows "valid_row (row @ [1])"
  using assms
  by (auto simp: drop_last_column_bounds within_bounds_unit_cube valid_row_def list_all_iff
      nth_append)


lemma mixed_in_domainD:
  "mixed_in_domain L \<Longrightarrow> optimize_acqf_mixed L t a = Inr (X, v) \<Longrightarrow>
     list_all (\<lambda>row. within_bounds (arg_bounds a) row
                 \<and> list_ex (\<lambda>ff. has_fixed_features ff row) (arg_fixed_features_list a)) X"
  unfolding mixed_in_domain_def by blast

lemma acqf_in_boundsD:
  "acqf_in_bounds L \<Longrightarrow> optimize_acqf L t a = Inr (X, v) \<Longrightarrow>
     list_all (within_bounds (arg_bounds a)) X"
  unfolding acqf_in_bounds_def by blast

lemma mfkg_iteration_valid:
  assumes "mixed_in_domain L" "list_all valid_row (g_train_x g)"
    and "mfkg_iteration L S g cs = Inr (g', cs')"
  shows "list_all valid_row (g_train_x g')"
proof -
  from assms(3) obtain m acq new_x new_obj cost cs2 where
    opt: "optimize_mfkg_and_get_observation L S acq cs2 = Inr ((new_x, new_obj, cost), cs')" and
    g': "g' = g\<lparr>g_train_x := g_train_x g @ new_x, g_train_obj := g_train_obj g @ new_obj,
                g_cumulative_cost := g_cumulative_cost g + cost, g_model := Some m\<rparr>"
    by (rule mfkg_iteration_Inr)
  from opt obtain a v where
    mixed: "optimize_acqf_mixed L (Suc (length cs2)) a = Inr (new_x, v)" and
    a: "arg_bounds a = bounds"
       "arg_fixed_features_list a = [[(6, 0.5)], [(6, 0.75)], [(6, 1.0)]]"
    by (rule optimize_mfkg_Inr) simp
  from mixed_in_domainD[OF assms(1) mixed] have "list_all valid_row new_x"
    unfolding a by (auto simp: list_all_iff intro: mixed_row_valid)
  with assms(2) g' show ?thesis by simp
qed

lemma ei_iteration_valid:
  assumes "acqf_in_bounds L" "list_all valid_row (g_train_x g)"
    and "ei_iteration L g cs = Inr (g', cs')"
  shows "list_all valid_row (g_train_x g')"
proof -
  from assms(3) obtain m best_f new_x new_obj cost cs1 where
    opt: "optimize_ei_and_get_observation L (get_ei m best_f) cs1
            = Inr ((new_x, new_obj, cost), cs')" and
    g': "g' = g\<lparr>g_train_x := g_train_x g @ new_x, g_train_obj := g_train_obj g @ new_obj,
                g_cumulative_cost := g_cumulative_cost g + cost, g_model := Some m\<rparr>"
    by (rule ei_iteration_Inr)
  from opt obtain a X v where
    acq: "optimize_acqf L (length cs1) a = Inr (X, v)" and
    a: "arg_bounds a = drop_last_column bounds" and
    full: "construct_X_full 7 [6] [1] X = Inr new_x"
    by (rule optimize_ei_Inr) simp
  from acqf_in_boundsD[OF assms(1) acq] construct_X_full_Inr[OF full]
  have "list_all valid_row new_x"
    unfolding a by (auto simp: list_all_iff intro: ei_row_valid)
  with assms(2) g' show ?thesis by simp
qed

lemma demo_rand_shape: "rand_shape demo_env"
  by (auto simp: rand_shape_def demo_env_def list_all_iff)

lemma demo_rand_range: "rand_range demo_env"
  by (auto simp: rand_range_def demo_env_def list_all_iff)

lemma demo_problem_length: "problem_length demo_env"
  by (auto simp: problem_length_def demo_env_def)

lemma demo_mixed_in_domain: "mixed_in_domain demo_env"
  by (auto simp: mixed_in_domain_def demo_env_def list_all_iff split: if_splits)

lemma demo_acqf_in_bounds: "acqf_in_bounds demo_env"
  by (auto simp: acqf_in_bounds_def demo_env_def list_all_iff split: if_splits)

lemma run_okE:
  assumes "case r of Inl _ \<Rightarrow> False | Inr (v, cs) \<Rightarrow> P v cs"
  obtains v cs where "r = Inr (v, cs)" "P v cs"
  using assms by (cases r) auto

lemma demo_mfkg_loop_runs:
  "\<exists>g0 cs0 g cs1.
     cell_6 demo_env [] = Inr (g0, cs0)
   \<and> for_range 3 (mfkg_iteration demo_env None) (g0\<lparr>g_cumulative_cost := 0\<rparr>) cs0 = Inr (g, cs1)
   \<and> length (g_train_x g) = 28"
proof -
  have "case cell_6 demo_env [] of Inl _ \<Rightarrow> False | Inr (g0, cs0) \<Rightarrow>
     (case for_range 3 (mfkg_iteration demo_env None) (g0\<lparr>g_cumulative_cost := 0\<rparr>) cs0 of
        Inl _ \<Rightarrow> False | Inr (g, cs1) \<Rightarrow> length (g_train_x g) = 28)"
    by code_simp
  then obtain g0 cs0 where a: "cell_6 demo_env [] = Inr (g0, cs0)" and
    b: "case for_range 3 (mfkg_iteration demo_env None) (g0\<lparr>g_cumulative_cost := 0\<rparr>) cs0 of
          Inl _ \<Rightarrow> False | Inr (g, cs1) \<Rightarrow> length (g_train_x g) = 28"
    by (rule run_okE)
  from b obtain g cs1 where
    "for_range 3 (mfkg_iteration demo_env None) (g0\<lparr>g_cumulative_cost := 0\<rparr>) cs0 = Inr (g, cs1)"
    "length (g_train_x g) = 28"
    by (rule run_okE)
  with a show ?thesis by blast
qed

lemma demo_ei_loop_runs:
  "\<exists>x obj cs0 g' cs1.
     generate_initial_data demo_env 16 [] = Inr ((x, obj), cs0)
   \<and> for_range 3 (ei_iteration demo_env)
        (demo_globals\<lparr>g_cumulative_cost := 0, g_train_x := x, g_train_obj := obj\<rparr>) cs0
       = Inr (g', cs1)
   \<and> length (g_train_x g') = 28 \<and> g_cumulative_cost g' = 72"
proof -
  have "case generate_initial_data demo_env 16 [] of Inl _ \<Rightarrow> False | Inr (d, cs0) \<Rightarrow>
     (case for_range 3 (ei_iteration demo_env)
             (demo_globals\<lparr>g_cumulative_cost := 0, g_train_x := fst d, g_train_obj := snd d\<rparr>)
             cs0 of
        Inl _ \<Rightarrow> False
      | Inr (g', cs1) \<Rightarrow> length (g_train_x g') = 28 \<and> g_cumulative_cost g' = 72)"
    by code_simp
  then obtain d cs0 where a: "generate_initial_data demo_env 16 [] = Inr (d, cs0)" and
    b: "case for_range 3 (ei_iteration demo_env)
             (demo_globals\<lparr>g_cumulative_cost := 0, g_train_x := fst d, g_train_obj := snd d\<rparr>)
             cs0 of
          Inl _ \<Rightarrow> False
        | Inr (g', cs1) \<Rightarrow> length (g_train_x g') = 28 \<and> g_cumulative_cost g' = 72"
    by (rule run_okE)
  from b obtain g' cs1 where
    "for_range 3 (ei_iteration demo_env)
       (demo_globals\<lparr>g_cumulative_cost := 0, g_train_x := fst d, g_train_obj := snd d\<rparr>) cs0
       = Inr (g', cs1)"
    "length (g_train_x g') = 28 \<and> g_cumulative_cost g' = 72"
    by (rule run_okE)
  with a show ?thesis
    by (intro exI[of _ "fst d"] exI[of _ "snd d"] exI[of _ cs0] exI[of _ g'] exI[of _ cs1]) simp
qed

text \<open>
  Claim C2. Let the library keep its contracts: \<^verbatim>\<open>torch.rand\<close> returns the shape it is asked
  for with entries in [0, 1), and the optimisers return candidates within their bounds
  that carry one of the fixed-feature assignments. Then after the initial data of cell 6
  and after any number \<open>k\<close> of completed iterations of the loop of cell 7, every row of
  \<^verbatim>\<open>train_x\<close> has seven coordinates, the first six in [0, 1] and the seventh one of 0.5,
  0.75, 1.0; and the same holds in the loop of the baseline (cell 11).
\<close>

theorem training_rows_stay_in_domain:
  assumes "rand_shape L" and "rand_range L" and "mixed_in_domain L" and "acqf_in_bounds L"
  shows "(\<forall>cs g0 cs0 k g cs1.
            cell_6 L cs = Inr (g0, cs0) \<longrightarrow>
            for_range k (mfkg_iteration L SMOKE_TEST) (g0\<lparr>g_cumulative_cost := 0\<rparr>) cs0
              = Inr (g, cs1) \<longrightarrow>
            list_all valid_row (g_train_x g))
       \<and> (\<forall>cs x obj cs0 g k g' cs1.
            generate_initial_data L 16 cs = Inr ((x, obj), cs0) \<longrightarrow>
            for_range k (ei_iteration L)
               (g\<lparr>g_cumulative_cost := 0, g_train_x := x, g_train_obj := obj\<rparr>) cs0
              = Inr (g', cs1) \<longrightarrow>
            list_all valid_row (g_train_x g'))"
proof (intro conjI allI impI)
  fix cs g0 cs0 k g cs1
  assume c6: "cell_6 L cs = Inr (g0, cs0)"
    and loop: "for_range k (mfkg_iteration L SMOKE_TEST) (g0\<lparr>g_cumulative_cost := 0\<rparr>) cs0
                 = Inr (g, cs1)"
  from c6 obtain x obj where
    "generate_initial_data L 16 cs = Inr ((x, obj), cs0)" "g_train_x g0 = x"
    by (auto simp: cell_6_def run_Inr)
  with assms(1,2) have "list_all valid_row (g_train_x (g0\<lparr>g_cumulative_cost := 0\<rparr>))"
    by (auto dest: initial_rows_valid)
  from for_range_invariant[where P = "\<lambda>g. list_all valid_row (g_train_x g)", OF loop this]
  show "list_all valid_row (g_train_x g)"
    using mfkg_iteration_valid[OF assms(3)] by blast
next
  fix cs x obj cs0 g k g' cs1
  assume gen: "generate_initial_data L 16 cs = Inr ((x, obj), cs0)"
    and loop: "for_range k (ei_iteration L)
                 (g\<lparr>g_cumulative_cost := 0, g_train_x := x, g_train_obj := obj\<rparr>) cs0
                 = Inr (g', cs1)"
  from assms(1,2) gen have
    "list_all valid_row
       (g_train_x (g\<lparr>g_cumulative_cost := 0, g_train_x := x, g_train_obj := obj\<rparr>))"
    by (auto dest: initial_rows_valid)
  from for_range_invariant[where P = "\<lambda>g. list_all valid_row (g_train_x g)", OF loop this]
  show "list_all valid_row (g_train_x g')"
    using ei_iteration_valid[OF assms(4)] by blast
qed

theorem training_rows_stay_in_domain_witness:
  "rand_shape demo_env \<and> rand_range demo_env \<and> mixed_in_domain demo_env
   \<and> acqf_in_bounds demo_env
   \<and> (\<exists>g0 cs0 g cs1.
         cell_6 demo_env [] = Inr (g0, cs0)
       \<and> for_range 3 (mfkg_iteration demo_env None) (g0\<lparr>g_cumulative_cost := 0\<rparr>) cs0
           = Inr (g, cs1)
       \<and> length (g_train_x g) = 28 \<and> list_all valid_row (g_train_x g))
   \<and> (\<exists>x obj cs0 g' cs1.
         generate_initial_data demo_env 16 [] = Inr ((x, obj), cs0)
       \<and> for_range 3 (ei_iteration demo_env)
            (demo_globals\<lparr>g_cumulative_cost := 0, g_train_x := x, g_train_obj := obj\<rparr>) cs0
           = Inr (g', cs1)
       \<and> length (g_train_x g') = 28 \<and> list_all valid_row (g_train_x g'))"
proof -
  note inst = training_rows_stay_in_domain[OF demo_rand_shape demo_rand_range
      demo_mixed_in_domain demo_acqf_in_bounds, of None]
  obtain g0 cs0 g cs1 where kg:
    "cell_6 demo_env [] = Inr (g0, cs0)"
    "for_range 3 (mfkg_iteration demo_env None) (g0\<lparr>g_cumulative_cost := 0\<rparr>) cs0 = Inr (g, cs1)"
    "length (g_train_x g) = 28"
    using demo_mfkg_loop_runs by blast
  obtain x obj cs0' g' cs1' where ei:
    "generate_initial_data demo_env 16 [] = Inr ((x, obj), cs0')"
    "for_range 3 (ei_iteration demo_env)
       (demo_globals\<lparr>g_cumulative_cost := 0, g_train_x := x, g_train_obj := obj\<rparr>) cs0'
       = Inr (g', cs1')"
    "length (g_train_x g') = 28"
    using demo_ei_loop_runs by blast
  from inst kg(1,2) have "list_all valid_row (g_train_x g)" by blast
  moreover from inst ei(1,2) have "list_all valid_row (g_train_x g')" by blast
  ultimately show ?thesis
    using kg ei demo_rand_shape demo_rand_range demo_mixed_in_domain demo_acqf_in_bounds
    by blast
qed

subsection \<open>The shapes of the training tensors\<close>

lemma rand_shapeD:
  "rand_shape L \<Longrightarrow> torch_rand L t n d = Inr X \<Longrightarrow> has_shape X n d"
  unfolding rand_shape_def has_shape_def by blast

lemma problem_lengthD:
  "problem_length L \<Longrightarrow> problem L t X = Inr y \<Longrightarrow> length y = length X"
  unfolding problem_length_def by blast

lemma has_shape_unsqueeze: "has_shape (unsqueeze y) (length y) 1"
  by (simp add: has_shape_def unsqueeze_def list_all_iff)

lemma has_shape_append:
  "has_shape A n d \<Longrightarrow> has_shape B m d \<Longrightarrow> has_shape (A @ B) (n + m) d"
  by (simp add: has_shape_def)

lemma cat_dim0_width:
  assumes "cat_dim0 A B = Inr C" "has_shape A n d" "0 < n"
  shows "list_all (\<lambda>row. length row = d) B"
proof -
  from assms(2,3) obtain a where a: "a \<in> set A" "length a = d"
    by (cases A) (auto simp: has_shape_def)
  from assms(1) have "\<forall>a\<in>set A. \<forall>b\<in>set B. length a = length b"
    by (auto simp: cat_dim0_def list_all_iff split: if_splits)
  with a show ?thesis by (auto simp: list_all_iff)
qed

lemma initial_data_shape:
  assumes "rand_shape L" "problem_length L"
    and "generate_initial_data L n cs = Inr ((X, Y), cs')"
  shows "has_shape X n 7 \<and> has_shape Y n 1"
proof -
  from assms(3) obtain U idx y where
    U: "torch_rand L (length cs) n 6 = Inr U" and
    idx: "length U = length idx" and
    X: "X = map2 (@) U (map (\<lambda>i. [fidelities ! i]) idx)" and
    y: "problem L (Suc (Suc (length cs))) X = Inr y" "Y = unsqueeze y"
    by (rule generate_initial_data_Inr)
  from rand_shapeD[OF assms(1) U] have u: "length U = n" "list_all (\<lambda>row. length row = 6) U"
    by (simp_all add: has_shape_def)
  have "list_all (\<lambda>row. length row = 7) X"
    unfolding X using u(2) by (intro list_all_map2) (auto simp: list_all_iff)
  moreover have "length X = n"
    unfolding X using u(1) idx by simp
  moreover have "length y = length X"
    using problem_lengthD[OF assms(2) y(1)] .
  ultimately show ?thesis
    using has_shape_unsqueeze[of y] y(2) by (simp add: has_shape_def)
qed

lemma mfkg_iteration_shape:
  assumes "problem_length L" "mixed_returns_q L"
    and "has_shape (g_train_x g) (16 + 4 * j) 7 \<and> has_shape (g_train_obj g) (16 + 4 * j) 1"
    and "mfkg_iteration L S g cs = Inr (g', cs')"
  shows "has_shape (g_train_x g') (16 + 4 * Suc j) 7
       \<and> has_shape (g_train_obj g') (16 + 4 * Suc j) 1"
proof -
  from assms(4) obtain m acq new_x new_obj cost cs2 where
    opt: "optimize_mfkg_and_get_observation L S acq cs2 = Inr ((new_x, new_obj, cost), cs')" and
    cat: "cat_dim0 (g_train_x g) new_x = Inr (g_train_x g @ new_x)" and
    g': "g' = g\<lparr>g_train_x := g_train_x g @ new_x, g_train_obj := g_train_obj g @ new_obj,
                g_cumulative_cost := g_cumulative_cost g + cost, g_model := Some m\<rparr>"
    by (rule mfkg_iteration_Inr)
  from opt obtain a v y where
    mixed: "optimize_acqf_mixed L (Suc (length cs2)) a = Inr (new_x, v)" "arg_q a = 4" and
    y: "problem L (Suc (Suc (length cs2))) new_x = Inr y" "new_obj = unsqueeze y"
    by (rule optimize_mfkg_Inr) simp
  have n: "length new_x = 4"
    using mixed_returns_qD[OF assms(2) mixed(1)] mixed(2) by simp
  have "list_all (\<lambda>row. length row = 7) new_x"
    using cat_dim0_width[OF cat, of "16 + 4 * j" 7] assms(3) by simp
  with n have x: "has_shape new_x 4 7" by (simp add: has_shape_def)
  have "length y = 4"
    using problem_lengthD[OF assms(1) y(1)] n by simp
  with has_shape_unsqueeze[of y] y(2) have o: "has_shape new_obj 4 1" by simp
  from assms(3) x o g' show ?thesis
    using has_shape_append[of "g_train_x g" "16 + 4 * j" 7 new_x 4]
          has_shape_append[of "g_train_obj g" "16 + 4 * j" 1 new_obj 4]
    by simp
qed

lemma ei_iteration_shape:
  assumes "problem_length L" "acqf_returns_q L"
    and "has_shape (g_train_x g) (16 + 4 * j) 7 \<and> has_shape (g_train_obj g) (16 + 4 * j) 1"
    and "ei_iteration L g cs = Inr (g', cs')"
  shows "has_shape (g_train_x g') (16 + 4 * Suc j) 7
       \<and> has_shape (g_train_obj g') (16 + 4 * Suc j) 1"
proof -
  from assms(4) obtain m best_f new_x new_obj cost cs1 where
    opt: "optimize_ei_and_get_observation L (get_ei m best_f) cs1
            = Inr ((new_x, new_obj, cost), cs')" and
    g': "g' = g\<lparr>g_train_x := g_train_x g @ new_x, g_train_obj := g_train_obj g @ new_obj,
                g_cumulative_cost := g_cumulative_cost g + cost, g_model := Some m\<rparr>"
    by (rule ei_iteration_Inr)
  from opt obtain a X v y where
    acq: "optimize_acqf L (length cs1) a = Inr (X, v)" "arg_q a = 4" and
    full: "construct_X_full 7 [6] [1] X = Inr new_x" and
    y: "problem L (Suc (length cs1)) new_x = Inr y" "new_obj = unsqueeze y"
    by (rule optimize_ei_Inr) simp
  have "length X = 4"
    using acqf_returns_qD[OF assms(2) acq(1)] acq(2) by simp
  with construct_X_full_Inr[OF full] have x: "has_shape new_x 4 7"
    by (auto simp: has_shape_def list_all_iff)
  then have "length y = 4"
    using problem_lengthD[OF assms(1) y(1)] by (simp add: has_shape_def)
  with has_shape_unsqueeze[of y] y(2) have o: "has_shape new_obj 4 1" by simp
  from assms(3) x o g' show ?thesis
    using has_shape_append[of "g_train_x g" "16 + 4 * j" 7 new_x 4]
          has_shape_append[of "g_train_obj g" "16 + 4 * j" 1 new_obj 4]
    by simp
qed

text \<open>
  Claim C6. Let \<^verbatim>\<open>torch.rand\<close> return the shape it is asked for, the test function one
  output per row, and the optimisers as many candidates as their batch size. Then after
  the initial data and \<open>k\<close> completed iterations of the loop of cell 7, \<^verbatim>\<open>train_x\<close> has shape
  (16 + 4k, 7) and \<^verbatim>\<open>train_obj\<close> has shape (16 + 4k, 1); the same holds in the loop of the
  baseline (cell 11).
\<close>

theorem training_tensors_shape_consistent:
  assumes "rand_shape L" and "problem_length L" and "mixed_returns_q L" and "acqf_returns_q L"
  shows "(\<forall>cs g0 cs0 k g cs1.
            cell_6 L cs = Inr (g0, cs0) \<longrightarrow>
            for_range k (mfkg_iteration L SMOKE_TEST) (g0\<lparr>g_cumulative_cost := 0\<rparr>) cs0
              = Inr (g, cs1) \<longrightarrow>
            has_shape (g_train_x g) (16 + 4 * k) 7 \<and> has_shape (g_train_obj g) (16 + 4 * k) 1)
       \<and> (\<forall>cs x obj cs0 g k g' cs1.
            generate_initial_data L 16 cs = Inr ((x, obj), cs0) \<longrightarrow>
            for_range k (ei_iteration L)
               (g\<lparr>g_cumulative_cost := 0, g_train_x := x, g_train_obj := obj\<rparr>) cs0
              = Inr (g', cs1) \<longrightarrow>
            has_shape (g_train_x g') (16 + 4 * k) 7 \<and> has_shape (g_train_obj g') (16 + 4 * k) 1)"
proof (intro conjI allI impI)
  fix cs g0 cs0 k g cs1
  assume c6: "cell_6 L cs = Inr (g0, cs0)"
    and loop: "for_range k (mfkg_iteration L SMOKE_TEST) (g0\<lparr>g_cumulative_cost := 0\<rparr>) cs0
                 = Inr (g, cs1)"
  let ?Q = "\<lambda>j g. has_shape (g_train_x g) (16 + 4 * j) 7 \<and> has_shape (g_train_obj g) (16 + 4 * j) 1"
  from c6 obtain x obj where
    "generate_initial_data L 16 cs = Inr ((x, obj), cs0)" "g_train_x g0 = x" "g_train_obj g0 = obj"
    by (auto simp: cell_6_def run_Inr)
  with assms(1,2) have "?Q 0 (g0\<lparr>g_cumulative_cost := 0\<rparr>)"
    by (auto dest: initial_data_shape)
  from for_range_counting[where Q = ?Q, OF loop this]
  have "?Q (0 + k) g"
    using mfkg_iteration_shape[OF assms(2,3)] by blast
  then show "has_shape (g_train_x g) (16 + 4 * k) 7" "has_shape (g_train_obj g) (16 + 4 * k) 1"
    by simp_all
next
  fix cs x obj cs0 g k g' cs1
  assume gen: "generate_initial_data L 16 cs = Inr ((x, obj), cs0)"
    and loop: "for_range k (ei_iteration L)
                 (g\<lparr>g_cumulative_cost := 0, g_train_x := x, g_train_obj := obj\<rparr>) cs0
                 = Inr (g', cs1)"
  let ?Q = "\<lambda>j g. has_shape (g_train_x g) (16 + 4 * j) 7 \<and> has_shape (g_train_obj g) (16 + 4 * j) 1"
  from assms(1,2) gen have
    "?Q 0 (g\<lparr>g_cumulative_cost := 0, g_train_x := x, g_train_obj := obj\<rparr>)"
    by (auto dest: initial_data_shape)
  from for_range_counting[where Q = ?Q, OF loop this]
  have "?Q (0 + k) g'"
    using ei_iteration_shape[OF assms(2,4)] by blast
  then show "has_shape (g_train_x g') (16 + 4 * k) 7" "has_shape (g_train_obj g') (16 + 4 * k) 1"
    by simp_all
qed

theorem training_tensors_shape_consistent_witness:
  "rand_shape demo_env \<and> problem_length demo_env \<and> mixed_returns_q demo_env
   \<and> acqf_returns_q demo_env
   \<and> (\<exists>g0 cs0 g cs1.
         cell_6 demo_env [] = Inr (g0, cs0)
       \<and> for_range 3 (mfkg_iteration demo_env None) (g0\<lparr>g_cumulative_cost := 0\<rparr>) cs0
           = Inr (g, cs1)
       \<and> has_shape (g_train_x g) (16 + 4 * 3) 7 \<and> has_shape (g_train_obj g) (16 + 4 * 3) 1)
   \<and> (\<exists>x obj cs0 g' cs1.
         generate_initial_data demo_env 16 [] = Inr ((x, obj), cs0)
       \<and> for_range 3 (ei_iteration demo_env)
            (demo_globals\<lparr>g_cumulative_cost := 0, g_train_x := x, g_train_obj := obj\<rparr>) cs0
           = Inr (g', cs1)
       \<and> has_shape (g_train_x g') (16 + 4 * 3) 7 \<and> has_shape (g_train_obj g') (16 + 4 * 3) 1)"
proof -
  note inst = training_tensors_shape_consistent[OF demo_rand_shape demo_problem_length
      demo_mixed_returns_q demo_acqf_returns_q, of None]
  obtain g0 cs0 g cs1 where kg:
    "cell_6 demo_env [] = Inr (g0, cs0)"
    "for_range 3 (mfkg_iteration demo_env None) (g0\<lparr>g_cumulative_cost := 0\<rparr>) cs0 = Inr (g, cs1)"
    using demo_mfkg_loop_runs by blast
  obtain x obj cs0' g' cs1' where ei:
    "generate_initial_data demo_env 16 [] = Inr ((x, obj), cs0')"
    "for_range 3 (ei_iteration demo_env)
       (demo_globals\<lparr>g_cumulative_cost := 0, g_train_x := x, g_train_obj := obj\<rparr>) cs0'
       = Inr (g', cs1')"
    using demo_ei_loop_runs by blast
  from inst kg have
    "has_shape (g_train_x g) (16 + 4 * 3) 7 \<and> has_shape (g_train_obj g) (16 + 4 * 3) 1"
    by blast
  moreover from inst ei have
    "has_shape (g_train_x g') (16 + 4 * 3) 7 \<and> has_shape (g_train_obj g') (16 + 4 * 3) 1"
    by blast
  ultimately show ?thesis
    using kg ei demo_rand_shape demo_problem_length demo_mixed_returns_q demo_acqf_returns_q
    by blast
qed

subsection \<open>The recommendation\<close>

lemma demo_cell_9_runs:
  "case cell_9 demo_env (demo_globals\<lparr>g_model := Some demo_model\<rparr>) [] of
     Inl _ \<Rightarrow> False
   | Inr (final_rec, cs') \<Rightarrow> final_rec = [[0.5, 0.5, 0.5, 0.5, 0.5, 0.5, 1]]"
  by code_simp

text \<open>
  Claim C5. Whenever the recommendation of cell 9 completes, the global \<^verbatim>\<open>model\<close> is bound,
  the optimiser was called on the posterior mean of that model (with column 6 fixed) over
  the six design coordinates' bounds with batch size 1, and the recommended tensor
  consists of the optimiser's rows, each widened to seven coordinates with the seventh
  equal to 1.0. When the optimiser returns as many candidates as its batch size, the
  recommendation is a single point.
\<close>

theorem recommendation_is_at_target_fidelity:
  assumes "cell_9 L g cs = Inr (final_rec, cs')"
  shows "\<exists>m X v.
           g_model g = Some m
         \<and> optimize_acqf L (length cs)
             \<lparr>arg_acq_function = FixedFeatureAcquisitionFunction (PosteriorMean m) 7 [6] [1],
              arg_bounds = [replicate 6 0, replicate 6 1], arg_q = 1,
              arg_num_restarts = 10, arg_raw_samples = 512,
              arg_batch_limit = 5, arg_maxiter = 200\<rparr> = Inr (X, v)
         \<and> length final_rec = length X
         \<and> (\<forall>i<length X. length (final_rec ! i) = 7 \<and> final_rec ! i ! 6 = 1.0
                \<and> take 6 (final_rec ! i) = X ! i)
         \<and> (acqf_returns_q L \<longrightarrow> length final_rec = 1)"
proof -
  from assms obtain m where m: "g_model g = Some m"
    and run: "get_recommendation L m cs = Inr (final_rec, cs')"
    by (auto simp: cell_9_def raise_def split: option.splits)
  from run obtain X v where
    acq: "optimize_acqf L (length cs)
       \<lparr>arg_acq_function = FixedFeatureAcquisitionFunction (PosteriorMean m) 7 [6] [1],
        arg_bounds = drop_last_column bounds, arg_q = 1,
        arg_num_restarts = 10, arg_raw_samples = 512,
        arg_batch_limit = 5, arg_maxiter = 200\<rparr> = Inr (X, v)" and
    full: "construct_X_full 7 [6] [1] X = Inr final_rec"
    by (rule get_recommendation_Inr)
  from construct_X_full_Inr[OF full] have
    w: "list_all (\<lambda>row. length row = 6) X" and f: "final_rec = map (\<lambda>row. row @ [1]) X"
    by simp_all
  have "acqf_returns_q L \<longrightarrow> length final_rec = 1"
    using acqf_returns_qD[OF _ acq] f by simp
  moreover have "\<forall>i<length X. length (final_rec ! i) = 7 \<and> final_rec ! i ! 6 = 1
                \<and> take 6 (final_rec ! i) = X ! i"
    using w f by (auto simp: list_all_length nth_append)
  ultimately show ?thesis
    using m acq f by (simp add: drop_last_column_bounds)
qed

theorem recommendation_is_at_target_fidelity_witness:
  "\<exists>cs' X v.
      cell_9 demo_env (demo_globals\<lparr>g_model := Some demo_model\<rparr>) []
        = Inr ([[0.5, 0.5, 0.5, 0.5, 0.5, 0.5, 1]], cs')
    \<and> acqf_returns_q demo_env
    \<and> optimize_acqf demo_env (length ([] :: call list))
             \<lparr>arg_acq_function =
                FixedFeatureAcquisitionFunction (PosteriorMean demo_model) 7 [6] [1],
              arg_bounds = [replicate 6 0, replicate 6 1], arg_q = 1,
              arg_num_restarts = 10, arg_raw_samples = 512,
              arg_batch_limit = 5, arg_maxiter = 200\<rparr> = Inr (X, v)
    \<and> length X = 1"
proof -
  from demo_cell_9_runs obtain final_rec cs' where
    run: "cell_9 demo_env (demo_globals\<lparr>g_model := Some demo_model\<rparr>) [] = Inr (final_rec, cs')"
    and r: "final_rec = [[0.5, 0.5, 0.5, 0.5, 0.5, 0.5, 1]]"
    by (rule run_okE)
  from recommendation_is_at_target_fidelity[OF run] demo_acqf_returns_q run r
  show ?thesis by auto
qed

subsection \<open>The loop, seen from its last iteration\<close>

lemma and_then_assoc:
  "and_then (and_then m f) h = and_then m (\<lambda>v. and_then (f v) h)"
  by (rule ext) (simp add: and_then_def split: sum.splits)

lemma for_range_Suc_last:
  "for_range (Suc n) body s = and_then (for_range n body s) body"
proof (induction n arbitrary: s)
  case 0
  show ?case by (rule ext) (simp add: and_then_def return_def split: sum.splits)
next
  case (Suc n)
  have "for_range (Suc (Suc n)) body s = and_then (body s) (for_range (Suc n) body)"
    by simp
  also have "\<dots> = and_then (body s) (\<lambda>s'. and_then (for_range n body s') body)"
    using Suc.IH by presburger
  also have "\<dots> = and_then (and_then (body s) (for_range n body)) body"
    by (simp add: and_then_assoc)
  finally show ?case by simp
qed

subsection \<open>The cost of the expected-improvement baseline\<close>

lemma sum_list_const_6:
  assumes "list_all (\<lambda>row. length row = 7 \<and> row ! 6 = 1) X"
  shows "(\<Sum>row\<leftarrow>X. 5 + row ! 6) = 6 * real (length X)"
  using assms by (induction X) (auto simp: algebra_simps)

lemma ei_iteration_cost:
  assumes "acqf_returns_q L" and "ei_iteration L g cs = Inr (g', cs')"
  shows "\<exists>new_x calls. cs' = cs @ calls \<and> observed calls = [new_x]
     \<and> length new_x = 4
     \<and> list_all (\<lambda>row. length row = 7 \<and> row ! 6 = 1) new_x
     \<and> g_train_x g' = g_train_x g @ new_x
     \<and> g_cumulative_cost g' = g_cumulative_cost g + 24"
proof -
  from assms(2) obtain m best_f new_x new_obj cost cs1 where
    fit: "fit_gpytorch_model L (fst (initialize_model (g_train_x g) (g_train_obj g))) cs
            = Inr (m, cs1)" and
    opt: "optimize_ei_and_get_observation L (get_ei m best_f) cs1
            = Inr ((new_x, new_obj, cost), cs')" and
    g': "g' = g\<lparr>g_train_x := g_train_x g @ new_x, g_train_obj := g_train_obj g @ new_obj,
                g_cumulative_cost := g_cumulative_cost g + cost, g_model := Some m\<rparr>"
    by (rule ei_iteration_Inr)
  from fit obtain c1 where c1: "cs1 = cs @ [c1]" "observed [c1] = []"
    by (rule fit_gpytorch_model_Inr) (simp add: observed_def)
  from opt obtain a X v costs c2 where
    acq: "optimize_acqf L (length cs1) a = Inr (X, v)" "arg_q a = 4" and
    full: "construct_X_full 7 [6] [1] X = Inr new_x" and
    cm: "cost_model new_x = Inr costs" "cost = tensor_sum costs" and
    c2: "cs' = cs1 @ [c2, Call_problem new_x]" "observed [c2] = []"
    by (rule optimize_ei_Inr) (simp add: observed_def)
  have X: "length X = 4"
    using acqf_returns_qD[OF assms(1) acq(1)] acq(2) by simp
  from construct_X_full_Inr[OF full] X have
    n: "length new_x = 4" and r: "list_all (\<lambda>row. length row = 7 \<and> row ! 6 = 1) new_x"
    by (auto simp: list_all_iff nth_append)
  have "cost = 24"
    using cost_model_Inr[OF cm(1)] cm(2) sum_list_const_6[OF r] n by simp
  moreover have "cs' = cs @ [c1, c2, Call_problem new_x]"
    using c1 c2 by simp
  moreover have "observed [c1, c2, Call_problem new_x] = [new_x]"
    using c1(2) c2(2) by (simp add: observed_def)
  ultimately show ?thesis
    using n r g' by auto
qed

lemma for_range_ei_cost:
  assumes "acqf_returns_q L" and "for_range n (ei_iteration L) g cs = Inr (g', cs')"
  shows "\<exists>calls. cs' = cs @ calls \<and> length (observed calls) = n
     \<and> list_all (\<lambda>B. length B = 4 \<and> list_all (\<lambda>row. length row = 7 \<and> row ! 6 = 1) B)
          (observed calls)
     \<and> g_train_x g' = g_train_x g @ concat (observed calls)
     \<and> g_cumulative_cost g' = g_cumulative_cost g + 24 * real n"
  using assms(2)
proof (induction n arbitrary: g cs)
  case 0
  then show ?case by (simp add: return_Inr observed_def)
next
  case (Suc n)
  from Suc.prems obtain g1 cs1 where
    step: "ei_iteration L g cs = Inr (g1, cs1)" and
    rest: "for_range n (ei_iteration L) g1 cs1 = Inr (g', cs')"
    by (auto simp: and_then_Inr)
  from ei_iteration_cost[OF assms(1) step] obtain new_x calls1 where
    s: "cs1 = cs @ calls1" "observed calls1 = [new_x]" "length new_x = 4"
       "list_all (\<lambda>row. length row = 7 \<and> row ! 6 = 1) new_x"
       "g_train_x g1 = g_train_x g @ new_x"
       "g_cumulative_cost g1 = g_cumulative_cost g + 24"
    by blast
  from Suc.IH[OF rest] obtain calls2 where
    r: "cs' = cs1 @ calls2" "length (observed calls2) = n"
       "list_all (\<lambda>B. length B = 4 \<and> list_all (\<lambda>row. length row = 7 \<and> row ! 6 = 1) B)
          (observed calls2)"
       "g_train_x g' = g_train_x g1 @ concat (observed calls2)"
       "g_cumulative_cost g' = g_cumulative_cost g1 + 24 * real n"
    by blast
  have "observed (calls1 @ calls2) = new_x # observed calls2"
    using s(2) by (simp add: observed_append)
  then show ?case
    using s r by (intro exI[of _ "calls1 @ calls2"]) (simp add: algebra_simps)
qed

text \<open>
  Claim C9. Let the optimiser return as many candidates as its batch size. Whenever
  cell 11 completes, whatever the library drew and returned, it observed the initial data
  and then \<^verbatim>\<open>N_ITER\<close> batches of 4 candidates, each with seven coordinates and the seventh
  equal to 1.0, so each costing 6.0; the cumulative cost is 6.0 * 4 * \<^verbatim>\<open>N_ITER\<close>, which is
  72.0 when \<^verbatim>\<open>SMOKE_TEST\<close> is not set.
\<close>

theorem baseline_cost_is_fixed:
  assumes "acqf_returns_q L" and "cell_11 L SMOKE_TEST g cs = Inr (g', cs')"
  shows "\<exists>x0 batches.
           observed (drop (length cs) cs') = x0 # batches
         \<and> length batches = N_ITER SMOKE_TEST
         \<and> list_all (\<lambda>B. length B = 4
               \<and> list_all (\<lambda>row. length row = 7 \<and> row ! 6 = 1.0 \<and> 5.0 + row ! 6 = 6.0) B) batches
         \<and> g_train_x g' = x0 @ concat batches
         \<and> g_cumulative_cost g' = 6.0 * 4 * real (N_ITER SMOKE_TEST)
         \<and> (\<not> truthy SMOKE_TEST \<longrightarrow> g_cumulative_cost g' = 72.0)"
proof -
  from assms(2) obtain x obj cs0 where
    gen: "generate_initial_data L 16 cs = Inr ((x, obj), cs0)" and
    loop: "for_range (N_ITER SMOKE_TEST) (ei_iteration L)
             (g\<lparr>g_cumulative_cost := 0, g_train_x := x, g_train_obj := obj\<rparr>) cs0 = Inr (g', cs')"
    by (auto simp: cell_11_def run_Inr)
  from gen have cs0: "cs0 = cs @ [Call_rand 16 6, Call_randint 3 16, Call_problem x]"
    by (rule generate_initial_data_Inr)
  from for_range_ei_cost[OF assms(1) loop] obtain calls where
    c: "cs' = cs0 @ calls" "length (observed calls) = N_ITER SMOKE_TEST"
       "list_all (\<lambda>B. length B = 4 \<and> list_all (\<lambda>row. length row = 7 \<and> row ! 6 = 1) B)
          (observed calls)"
       "g_train_x g' = x @ concat (observed calls)"
       "g_cumulative_cost g' = 24 * real (N_ITER SMOKE_TEST)"
    by auto
  have "observed (drop (length cs) cs') = x # observed calls"
    using cs0 c(1) by (simp add: observed_def)
  moreover have "list_all (\<lambda>B. length B = 4
               \<and> list_all (\<lambda>row. length row = 7 \<and> row ! 6 = 1 \<and> 5 + row ! 6 = 6) B)
               (observed calls)"
    using c(3) by (auto simp: list_all_iff)
  ultimately show ?thesis
    using c by (auto simp: N_ITER_def)
qed

theorem baseline_cost_is_fixed_witness:
  "acqf_returns_q demo_env
   \<and> (\<exists>g' cs'. cell_11 demo_env None demo_globals [] = Inr (g', cs')
        \<and> g_cumulative_cost g' = 72 \<and> N_ITER None = 3 \<and> \<not> truthy None)"
proof -
  from demo_ei_loop_runs obtain x obj cs0 g' cs1 where
    gen: "generate_initial_data demo_env 16 [] = Inr ((x, obj), cs0)" and
    loop: "for_range 3 (ei_iteration demo_env)
        (demo_globals\<lparr>g_cumulative_cost := 0, g_train_x := x, g_train_obj := obj\<rparr>) cs0
       = Inr (g', cs1)"
    by blast
  have n: "N_ITER None = 3" "\<not> truthy None"
    by (simp_all add: N_ITER_def truthy_def)
  have run: "cell_11 demo_env None demo_globals [] = Inr (g', cs1)"
    using gen loop n by (simp add: cell_11_def and_then_def)
  from baseline_cost_is_fixed[OF demo_acqf_returns_q run] n
  have "g_cumulative_cost g' = 72" by auto
  with run n demo_acqf_returns_q show ?thesis by blast
qed

subsection \<open>Changing the library at one call\<close>

lemma alikeD:
  assumes "alike t eo m m'" and "m cs = Inr (v, cs')"
  shows "length cs \<le> length cs'"
    and "t < length cs \<or> length cs' \<le> t \<Longrightarrow> m' cs = Inr (v, cs')"
    and "\<not> (t < length cs \<or> length cs' \<le> t) \<Longrightarrow>
           (case eo of None \<Rightarrow> True | Some e \<Rightarrow> m' cs = Inl (e, take (Suc t) cs'))"
    and "take (length cs) cs' = cs"
proof -
  from assms have "length cs \<le> length cs' \<and> take (length cs) cs' = cs
      \<and> (if t < length cs \<or> length cs' \<le> t then m' cs = Inr (v, cs')
         else (case eo of None \<Rightarrow> True | Some e \<Rightarrow> m' cs = Inl (e, take (Suc t) cs')))"
    unfolding alike_def by blast
  then show "length cs \<le> length cs'"
    and "t < length cs \<or> length cs' \<le> t \<Longrightarrow> m' cs = Inr (v, cs')"
    and "\<not> (t < length cs \<or> length cs' \<le> t) \<Longrightarrow>
           (case eo of None \<Rightarrow> True | Some e \<Rightarrow> m' cs = Inl (e, take (Suc t) cs'))"
    and "take (length cs) cs' = cs"
    by (simp_all split: if_splits)
qed

lemma alike_return: "alike t eo (return v) (return v)"
  by (auto simp: alike_def return_def)

lemma alike_raise: "alike t eo (raise e) (raise e)"
  by (auto simp: alike_def raise_def)

lemma alike_lift: "alike t eo (lift x) (lift x)"
  by (auto simp: alike_def lift_def split: sum.splits)

lemma alike_library:
  assumes "oracle_alike t eo f f'"
  shows "alike t eo (library c f) (library c f')"
  unfolding alike_def
proof (intro allI impI)
  fix cs v cs'
  assume "library c f cs = Inr (v, cs')"
  then have f: "f (length cs) = Inr v" and cs': "cs' = cs @ [c]"
    by (auto simp: library_Inr)
  from assms have same: "\<And>t'. t' \<noteq> t \<Longrightarrow> f' t' = f t'"
    and fails: "case eo of None \<Rightarrow> True | Some e \<Rightarrow> f' t = Inl e"
    by (auto simp: oracle_alike_def)
  show "length cs \<le> length cs' \<and> take (length cs) cs' = cs
      \<and> (if t < length cs \<or> length cs' \<le> t then library c f' cs = Inr (v, cs')
         else (case eo of None \<Rightarrow> True
               | Some e \<Rightarrow> library c f' cs = Inl (e, take (Suc t) cs')))"
  proof (cases "t = length cs")
    case True
    with fails cs' show ?thesis
      by (auto simp: library_def split: option.splits)
  next
    case False
    with same[of "length cs"] f cs' show ?thesis
      by (auto simp: library_def)
  qed
qed

lemma alike_and_then:
  assumes "alike t eo m m'" and "\<And>v. alike t eo (f v) (f' v)"
  shows "alike t eo (and_then m f) (and_then m' f')"
  unfolding alike_def
proof (intro allI impI)
  fix cs w cs2
  assume run: "and_then m f cs = Inr (w, cs2)"
  then obtain v cs1 where m: "m cs = Inr (v, cs1)" and f: "f v cs1 = Inr (w, cs2)"
    by (auto simp: and_then_Inr)
  note 1 = alikeD[OF assms(1) m]
  note 2 = alikeD[OF assms(2) f]
  have prefix: "take (length cs) cs2 = cs"
  proof -
    have "take (length cs) cs2 = take (length cs) (take (length cs1) cs2)"
      using 1(1) by (simp add: min_absorb1)
    then show ?thesis using 1(4) 2(4) by simp
  qed
  show "length cs \<le> length cs2 \<and> take (length cs) cs2 = cs
      \<and> (if t < length cs \<or> length cs2 \<le> t then and_then m' f' cs = Inr (w, cs2)
         else (case eo of None \<Rightarrow> True
               | Some e \<Rightarrow> and_then m' f' cs = Inl (e, take (Suc t) cs2)))"
  proof (cases "t < length cs \<or> length cs2 \<le> t")
    case True
    with 1(1) 2(1) have "t < length cs \<or> length cs1 \<le> t" "t < length cs1 \<or> length cs2 \<le> t"
      by auto
    with 1(2) 2(2) have "and_then m' f' cs = Inr (w, cs2)"
      by (simp add: and_then_def)
    with True 1(1) 2(1) prefix show ?thesis by simp
  next
    case False
    show ?thesis
    proof (cases "t < length cs1")
      case True
      have "take (Suc t) cs2 = take (Suc t) (take (length cs1) cs2)"
        using True by (simp add: min_absorb1)
      then have same_log: "take (Suc t) cs2 = take (Suc t) cs1"
        using 2(4) by simp
      from True False 1(3) have
        "case eo of None \<Rightarrow> True | Some e \<Rightarrow> m' cs = Inl (e, take (Suc t) cs1)"
        by auto
      then have "case eo of None \<Rightarrow> True
                 | Some e \<Rightarrow> and_then m' f' cs = Inl (e, take (Suc t) cs2)"
        using same_log by (auto simp: and_then_def split: option.splits)
      with False 1(1) 2(1) prefix show ?thesis by simp
    next
      case ge: False
      with False 1(2) have m': "m' cs = Inr (v, cs1)" by auto
      from ge False 2(3) have
        "case eo of None \<Rightarrow> True | Some e \<Rightarrow> f' v cs1 = Inl (e, take (Suc t) cs2)"
        by auto
      with m' have "case eo of None \<Rightarrow> True
                    | Some e \<Rightarrow> and_then m' f' cs = Inl (e, take (Suc t) cs2)"
        by (auto simp: and_then_def split: option.splits)
      with False 1(1) 2(1) prefix show ?thesis by simp
    qed
  qed
qed

lemma alike_for_range:
  assumes "\<And>s. alike t eo (body s) (body' s)"
  shows "alike t eo (for_range n body s) (for_range n body' s)"
proof (induction n arbitrary: s)
  case 0
  show ?case by (simp add: alike_return)
next
  case (Suc n)
  show ?case by (simp add: alike_and_then assms Suc)
qed


lemma envs_alikeD:
  assumes "envs_alike t eo L L'"
  shows "oracle_alike t eo (\<lambda>t'. torch_rand L t' n d) (\<lambda>t'. torch_rand L' t' n d)"
    and "oracle_alike t eo (\<lambda>t'. torch_randint L t' h n) (\<lambda>t'. torch_randint L' t' h n)"
    and "oracle_alike t eo (\<lambda>t'. problem L t' X) (\<lambda>t'. problem L' t' X)"
    and "oracle_alike t eo (\<lambda>t'. fit_hyperparameters L t' m) (\<lambda>t'. fit_hyperparameters L' t' m)"
    and "oracle_alike t eo (\<lambda>t'. optimize_acqf L t' a) (\<lambda>t'. optimize_acqf L' t' a)"
    and "oracle_alike t eo (\<lambda>t'. gen_one_shot_kg_initial_conditions L t' i)
                           (\<lambda>t'. gen_one_shot_kg_initial_conditions L' t' i)"
    and "oracle_alike t eo (\<lambda>t'. optimize_acqf_mixed L t' b) (\<lambda>t'. optimize_acqf_mixed L' t' b)"
  using assms unfolding envs_alike_def by blast+

lemmas alike_intros =
  alike_and_then alike_library alike_lift alike_return alike_raise alike_for_range envs_alikeD



lemma alike_fit_gpytorch_model:
  assumes "envs_alike t eo L L'"
  shows "alike t eo (fit_gpytorch_model L m) (fit_gpytorch_model L' m)"
  unfolding fit_gpytorch_model_def
  by (cases m) (simp, intro alike_intros assms)

lemma alike_get_mfkg:
  assumes "envs_alike t eo L L'"
  shows "alike t eo (get_mfkg L S m) (get_mfkg L' S m)"
  unfolding get_mfkg_def Let_def case_prod_beta
  by (intro alike_intros assms)

lemma alike_optimize_mfkg:
  assumes "envs_alike t eo L L'"
  shows "alike t eo (optimize_mfkg_and_get_observation L S a)
                    (optimize_mfkg_and_get_observation L' S a)"
  unfolding optimize_mfkg_and_get_observation_def Let_def case_prod_beta
  by (intro alike_intros assms)

lemma alike_mfkg_iteration:
  assumes "envs_alike t eo L L'"
  shows "alike t eo (mfkg_iteration L S g) (mfkg_iteration L' S g)"
  unfolding mfkg_iteration_def case_prod_beta
  by (intro alike_intros assms alike_fit_gpytorch_model alike_get_mfkg alike_optimize_mfkg)

lemma alike_get_recommendation:
  assumes "envs_alike t eo L L'"
  shows "alike t eo (get_recommendation L m) (get_recommendation L' m)"
  unfolding get_recommendation_def Let_def case_prod_beta
  by (intro alike_intros assms)



lemma alike_cell_9:
  assumes "envs_alike t eo L L'"
  shows "alike t eo (cell_9 L g) (cell_9 L' g)"
  unfolding cell_9_def
  by (cases "g_model g") (simp_all add: alike_raise alike_get_recommendation assms)


subsection \<open>Errors of the library\<close>




subsection \<open>The model behind the recommendation\<close>

lemma N_ITER_pos: "N_ITER S = Suc (N_ITER S - 1)"
  by (simp add: N_ITER_def)

lemma envs_alike_same:
  assumes "envs_alike t eo L L'" and "t' \<noteq> t"
  shows "fit_hyperparameters L' t' m = fit_hyperparameters L t' m"
    and "optimize_acqf L' t' a = optimize_acqf L t' a"
    and "gen_one_shot_kg_initial_conditions L' t' i = gen_one_shot_kg_initial_conditions L t' i"
    and "optimize_acqf_mixed L' t' b = optimize_acqf_mixed L t' b"
  using envs_alikeD(4-7)[OF assms(1)] assms(2) unfolding oracle_alike_def by blast+

lemma last_iteration_of_cell_7:
  assumes "cell_7 L S g cs = Inr (g', cs')"
  obtains g_prev cs_prev where
    "for_range (N_ITER S - 1) (mfkg_iteration L S) (g\<lparr>g_cumulative_cost := 0\<rparr>) cs
       = Inr (g_prev, cs_prev)"
    "mfkg_iteration L S g_prev cs_prev = Inr (g', cs')"
proof -
  from assms have
    "and_then (for_range (N_ITER S - 1) (mfkg_iteration L S) (g\<lparr>g_cumulative_cost := 0\<rparr>))
       (mfkg_iteration L S) cs = Inr (g', cs')"
    unfolding cell_7_def by (subst (asm) N_ITER_pos) (simp only: for_range_Suc_last)
  then show ?thesis
    by (auto simp: and_then_Inr intro: that)
qed

lemma mfkg_iteration_before_observation:
  assumes "mfkg_iteration L S g cs = Inr (g', cs')"
  obtains h v0 X0 X_init v new_x y where
    "fit_hyperparameters L (length cs) (snd (initialize_model (g_train_x g) (g_train_obj g)))
       = Inr h"
    "optimize_acqf L (Suc (length cs))
       \<lparr>arg_acq_function = FixedFeatureAcquisitionFunction
          (PosteriorMean ((snd (initialize_model (g_train_x g) (g_train_obj g)))
                            \<lparr>gp_hyperparameters := h\<rparr>)) 7 [6] [1],
        arg_bounds = drop_last_column bounds, arg_q = 1,
        arg_num_restarts = (if \<not> truthy S then 10 else 2),
        arg_raw_samples = (if \<not> truthy S then 1024 else 4),
        arg_batch_limit = 10, arg_maxiter = 200\<rparr> = Inr (X0, v0)"
    "gen_one_shot_kg_initial_conditions L (Suc (Suc (length cs)))
       \<lparr>arg_acq_function = qMultiFidelityKnowledgeGradient
          ((snd (initialize_model (g_train_x g) (g_train_obj g)))\<lparr>gp_hyperparameters := h\<rparr>)
          (if \<not> truthy S then 128 else 2) v0,
        arg_bounds = bounds, arg_q = 4,
        arg_num_restarts = 10, arg_raw_samples = 512\<rparr> = Inr X_init"
    "optimize_acqf_mixed L (Suc (Suc (Suc (length cs))))
       \<lparr>arg_acq_function = qMultiFidelityKnowledgeGradient
          ((snd (initialize_model (g_train_x g) (g_train_obj g)))\<lparr>gp_hyperparameters := h\<rparr>)
          (if \<not> truthy S then 128 else 2) v0,
        arg_bounds = bounds, arg_q = 4,
        arg_num_restarts = NUM_RESTARTS S, arg_raw_samples = RAW_SAMPLES S,
        arg_batch_limit = 5, arg_maxiter = 200,
        arg_fixed_features_list = [[(6, 0.5)], [(6, 0.75)], [(6, 1.0)]],
        arg_batch_initial_conditions = X_init\<rparr> = Inr (new_x, v)"
    "problem L (Suc (Suc (Suc (Suc (length cs))))) new_x = Inr y"
    "g_model g' = Some ((snd (initialize_model (g_train_x g) (g_train_obj g)))
                          \<lparr>gp_hyperparameters := h\<rparr>)"
    "g_train_x g' = g_train_x g @ new_x"
    "g_train_obj g' = g_train_obj g @ unsqueeze y"
    "cs' = cs @ [Call_fit_gpytorch_model (snd (initialize_model (g_train_x g) (g_train_obj g))),
       Call_optimize_acqf
         \<lparr>arg_acq_function = FixedFeatureAcquisitionFunction
            (PosteriorMean ((snd (initialize_model (g_train_x g) (g_train_obj g)))
                              \<lparr>gp_hyperparameters := h\<rparr>)) 7 [6] [1],
          arg_bounds = drop_last_column bounds, arg_q = 1,
          arg_num_restarts = (if \<not> truthy S then 10 else 2),
          arg_raw_samples = (if \<not> truthy S then 1024 else 4),
          arg_batch_limit = 10, arg_maxiter = 200\<rparr>,
       Call_gen_one_shot_kg_initial_conditions
         \<lparr>arg_acq_function = qMultiFidelityKnowledgeGradient
            ((snd (initialize_model (g_train_x g) (g_train_obj g)))\<lparr>gp_hyperparameters := h\<rparr>)
            (if \<not> truthy S then 128 else 2) v0,
          arg_bounds = bounds, arg_q = 4,
          arg_num_restarts = 10, arg_raw_samples = 512\<rparr>,
       Call_optimize_acqf_mixed
         \<lparr>arg_acq_function = qMultiFidelityKnowledgeGradient
            ((snd (initialize_model (g_train_x g) (g_train_obj g)))\<lparr>gp_hyperparameters := h\<rparr>)
            (if \<not> truthy S then 128 else 2) v0,
          arg_bounds = bounds, arg_q = 4,
          arg_num_restarts = NUM_RESTARTS S, arg_raw_samples = RAW_SAMPLES S,
          arg_batch_limit = 5, arg_maxiter = 200,
          arg_fixed_features_list = [[(6, 0.5)], [(6, 0.75)], [(6, 1.0)]],
          arg_batch_initial_conditions = X_init\<rparr>,
       Call_problem new_x]"
proof -
  from assms obtain m acq new_x new_obj cost cs1 cs2 where
    fit: "fit_gpytorch_model L (fst (initialize_model (g_train_x g) (g_train_obj g))) cs
            = Inr (m, cs1)" and
    kg: "get_mfkg L S m cs1 = Inr (acq, cs2)" and
    opt: "optimize_mfkg_and_get_observation L S acq cs2 = Inr ((new_x, new_obj, cost), cs')" and
    g': "g' = g\<lparr>g_train_x := g_train_x g @ new_x, g_train_obj := g_train_obj g @ new_obj,
                g_cumulative_cost := g_cumulative_cost g + cost, g_model := Some m\<rparr>"
    by (rule mfkg_iteration_Inr)
  from fit obtain h where
    h: "fit_hyperparameters L (length cs) (snd (initialize_model (g_train_x g) (g_train_obj g)))
          = Inr h"
       "m = (snd (initialize_model (g_train_x g) (g_train_obj g)))\<lparr>gp_hyperparameters := h\<rparr>"
       "cs1 = cs @ [Call_fit_gpytorch_model
                      (snd (initialize_model (g_train_x g) (g_train_obj g)))]"
    by (rule fit_gpytorch_model_Inr)
  from kg obtain X0 v0 where
    k: "optimize_acqf L (length cs1)
       \<lparr>arg_acq_function = FixedFeatureAcquisitionFunction (PosteriorMean m) 7 [6] [1],
        arg_bounds = drop_last_column bounds, arg_q = 1,
        arg_num_restarts = (if \<not> truthy S then 10 else 2),
        arg_raw_samples = (if \<not> truthy S then 1024 else 4),
        arg_batch_limit = 10, arg_maxiter = 200\<rparr> = Inr (X0, v0)"
       "acq = qMultiFidelityKnowledgeGradient m (if \<not> truthy S then 128 else 2) v0"
       "cs2 = cs1 @ [Call_optimize_acqf
       \<lparr>arg_acq_function = FixedFeatureAcquisitionFunction (PosteriorMean m) 7 [6] [1],
        arg_bounds = drop_last_column bounds, arg_q = 1,
        arg_num_restarts = (if \<not> truthy S then 10 else 2),
        arg_raw_samples = (if \<not> truthy S then 1024 else 4),
        arg_batch_limit = 10, arg_maxiter = 200\<rparr>]"
    by (rule get_mfkg_Inr)
  from opt obtain X_init v y where
    o: "gen_one_shot_kg_initial_conditions L (length cs2)
       \<lparr>arg_acq_function = acq, arg_bounds = bounds, arg_q = 4,
        arg_num_restarts = 10, arg_raw_samples = 512\<rparr> = Inr X_init"
    "optimize_acqf_mixed L (Suc (length cs2))
       \<lparr>arg_acq_function = acq, arg_bounds = bounds, arg_q = 4,
        arg_num_restarts = NUM_RESTARTS S, arg_raw_samples = RAW_SAMPLES S,
        arg_batch_limit = 5, arg_maxiter = 200,
        arg_fixed_features_list = [[(6, 0.5)], [(6, 0.75)], [(6, 1.0)]],
        arg_batch_initial_conditions = X_init\<rparr> = Inr (new_x, v)"
    "problem L (Suc (Suc (length cs2))) new_x = Inr y"
    "new_obj = unsqueeze y"
    "cs' = cs2 @ [Call_gen_one_shot_kg_initial_conditions
                   \<lparr>arg_acq_function = acq, arg_bounds = bounds, arg_q = 4,
                    arg_num_restarts = 10, arg_raw_samples = 512\<rparr>,
                 Call_optimize_acqf_mixed
                   \<lparr>arg_acq_function = acq, arg_bounds = bounds, arg_q = 4,
                    arg_num_restarts = NUM_RESTARTS S, arg_raw_samples = RAW_SAMPLES S,
                    arg_batch_limit = 5, arg_maxiter = 200,
                    arg_fixed_features_list = [[(6, 0.5)], [(6, 0.75)], [(6, 1.0)]],
                    arg_batch_initial_conditions = X_init\<rparr>,
                 Call_problem new_x]"
    by (rule optimize_mfkg_Inr)
  show ?thesis
    using h k o g' by (intro that[of h X0 v0 X_init new_x v y]) simp_all
qed


lemma last_batch_does_not_reach_recommendation:
  assumes run: "cell_7 L S g cs = Inr (g1, cs1)"
    and ea: "envs_alike (length cs1 - 1) None L L2"
    and run2: "cell_7 L2 S g cs = Inr (g2, cs2)"
    and rec1: "cell_9 L g1 cs1 = Inr (final_rec, cs')"
  shows "cs2 = cs1 \<and> g_model g2 = g_model g1 \<and> g_train_x g2 = g_train_x g1
       \<and> cell_9 L2 g2 cs2 = Inr (final_rec, cs')"
proof -
  from run obtain g_prev cs_prev where
    prev: "for_range (N_ITER S - 1) (mfkg_iteration L S) (g\<lparr>g_cumulative_cost := 0\<rparr>) cs
             = Inr (g_prev, cs_prev)" and
    last: "mfkg_iteration L S g_prev cs_prev = Inr (g1, cs1)"
    by (rule last_iteration_of_cell_7)
  let ?m0 = "snd (initialize_model (g_train_x g_prev) (g_train_obj g_prev))"
  from last obtain h v0 X0 X_init v new_x y where
    a: "fit_hyperparameters L (length cs_prev) ?m0 = Inr h"
       "optimize_acqf L (Suc (length cs_prev))
         \<lparr>arg_acq_function = FixedFeatureAcquisitionFunction
            (PosteriorMean (?m0\<lparr>gp_hyperparameters := h\<rparr>)) 7 [6] [1],
          arg_bounds = drop_last_column bounds, arg_q = 1,
          arg_num_restarts = (if \<not> truthy S then 10 else 2),
          arg_raw_samples = (if \<not> truthy S then 1024 else 4),
          arg_batch_limit = 10, arg_maxiter = 200\<rparr> = Inr (X0, v0)"
       "gen_one_shot_kg_initial_conditions L (Suc (Suc (length cs_prev)))
         \<lparr>arg_acq_function = qMultiFidelityKnowledgeGradient
            (?m0\<lparr>gp_hyperparameters := h\<rparr>) (if \<not> truthy S then 128 else 2) v0,
          arg_bounds = bounds, arg_q = 4,
          arg_num_restarts = 10, arg_raw_samples = 512\<rparr> = Inr X_init"
       "optimize_acqf_mixed L (Suc (Suc (Suc (length cs_prev))))
         \<lparr>arg_acq_function = qMultiFidelityKnowledgeGradient
            (?m0\<lparr>gp_hyperparameters := h\<rparr>) (if \<not> truthy S then 128 else 2) v0,
          arg_bounds = bounds, arg_q = 4,
          arg_num_restarts = NUM_RESTARTS S, arg_raw_samples = RAW_SAMPLES S,
          arg_batch_limit = 5, arg_maxiter = 200,
          arg_fixed_features_list = [[(6, 0.5)], [(6, 0.75)], [(6, 1.0)]],
          arg_batch_initial_conditions = X_init\<rparr> = Inr (new_x, v)" and
    m1: "g_model g1 = Some (?m0\<lparr>gp_hyperparameters := h\<rparr>)" and
    x1: "g_train_x g1 = g_train_x g_prev @ new_x" and
    cs1: "cs1 = cs_prev @ [Call_fit_gpytorch_model ?m0,
       Call_optimize_acqf
         \<lparr>arg_acq_function = FixedFeatureAcquisitionFunction
            (PosteriorMean (?m0\<lparr>gp_hyperparameters := h\<rparr>)) 7 [6] [1],
          arg_bounds = drop_last_column bounds, arg_q = 1,
          arg_num_restarts = (if \<not> truthy S then 10 else 2),
          arg_raw_samples = (if \<not> truthy S then 1024 else 4),
          arg_batch_limit = 10, arg_maxiter = 200\<rparr>,
       Call_gen_one_shot_kg_initial_conditions
         \<lparr>arg_acq_function = qMultiFidelityKnowledgeGradient
            (?m0\<lparr>gp_hyperparameters := h\<rparr>) (if \<not> truthy S then 128 else 2) v0,
          arg_bounds = bounds, arg_q = 4,
          arg_num_restarts = 10, arg_raw_samples = 512\<rparr>,
       Call_optimize_acqf_mixed
         \<lparr>arg_acq_function = qMultiFidelityKnowledgeGradient
            (?m0\<lparr>gp_hyperparameters := h\<rparr>) (if \<not> truthy S then 128 else 2) v0,
          arg_bounds = bounds, arg_q = 4,
          arg_num_restarts = NUM_RESTARTS S, arg_raw_samples = RAW_SAMPLES S,
          arg_batch_limit = 5, arg_maxiter = 200,
          arg_fixed_features_list = [[(6, 0.5)], [(6, 0.75)], [(6, 1.0)]],
          arg_batch_initial_conditions = X_init\<rparr>,
       Call_problem new_x]"
    by (rule mfkg_iteration_before_observation)
  from cs1 have T: "length cs1 - 1 = length cs_prev + 4" by simp
  have ticks: "length cs_prev \<noteq> length cs1 - 1" "Suc (length cs_prev) \<noteq> length cs1 - 1"
    "Suc (Suc (length cs_prev)) \<noteq> length cs1 - 1"
    "Suc (Suc (Suc (length cs_prev))) \<noteq> length cs1 - 1"
    using T by simp_all
  have "for_range (N_ITER S - 1) (mfkg_iteration L2 S) (g\<lparr>g_cumulative_cost := 0\<rparr>) cs
          = Inr (g_prev, cs_prev)"
    using alikeD(2)[OF alike_for_range[OF alike_mfkg_iteration[OF ea]] prev] T by simp
  moreover from run2 obtain g_prev2 cs_prev2 where
    "for_range (N_ITER S - 1) (mfkg_iteration L2 S) (g\<lparr>g_cumulative_cost := 0\<rparr>) cs
       = Inr (g_prev2, cs_prev2)"
    "mfkg_iteration L2 S g_prev2 cs_prev2 = Inr (g2, cs2)"
    by (rule last_iteration_of_cell_7)
  ultimately have last2: "mfkg_iteration L2 S g_prev cs_prev = Inr (g2, cs2)"
    by simp
  from last2 obtain h' v0' X0' X_init' v' new_x' y' where
    b: "fit_hyperparameters L2 (length cs_prev) ?m0 = Inr h'"
       "optimize_acqf L2 (Suc (length cs_prev))
         \<lparr>arg_acq_function = FixedFeatureAcquisitionFunction
            (PosteriorMean (?m0\<lparr>gp_hyperparameters := h'\<rparr>)) 7 [6] [1],
          arg_bounds = drop_last_column bounds, arg_q = 1,
          arg_num_restarts = (if \<not> truthy S then 10 else 2),
          arg_raw_samples = (if \<not> truthy S then 1024 else 4),
          arg_batch_limit = 10, arg_maxiter = 200\<rparr> = Inr (X0', v0')"
       "gen_one_shot_kg_initial_conditions L2 (Suc (Suc (length cs_prev)))
         \<lparr>arg_acq_function = qMultiFidelityKnowledgeGradient
            (?m0\<lparr>gp_hyperparameters := h'\<rparr>) (if \<not> truthy S then 128 else 2) v0',
          arg_bounds = bounds, arg_q = 4,
          arg_num_restarts = 10, arg_raw_samples = 512\<rparr> = Inr X_init'"
       "optimize_acqf_mixed L2 (Suc (Suc (Suc (length cs_prev))))
         \<lparr>arg_acq_function = qMultiFidelityKnowledgeGradient
            (?m0\<lparr>gp_hyperparameters := h'\<rparr>) (if \<not> truthy S then 128 else 2) v0',
          arg_bounds = bounds, arg_q = 4,
          arg_num_restarts = NUM_RESTARTS S, arg_raw_samples = RAW_SAMPLES S,
          arg_batch_limit = 5, arg_maxiter = 200,
          arg_fixed_features_list = [[(6, 0.5)], [(6, 0.75)], [(6, 1.0)]],
          arg_batch_initial_conditions = X_init'\<rparr> = Inr (new_x', v')" and
    m2: "g_model g2 = Some (?m0\<lparr>gp_hyperparameters := h'\<rparr>)" and
    x2: "g_train_x g2 = g_train_x g_prev @ new_x'" and
    cs2: "cs2 = cs_prev @ [Call_fit_gpytorch_model ?m0,
       Call_optimize_acqf
         \<lparr>arg_acq_function = FixedFeatureAcquisitionFunction
            (PosteriorMean (?m0\<lparr>gp_hyperparameters := h'\<rparr>)) 7 [6] [1],
          arg_bounds = drop_last_column bounds, arg_q = 1,
          arg_num_restarts = (if \<not> truthy S then 10 else 2),
          arg_raw_samples = (if \<not> truthy S then 1024 else 4),
          arg_batch_limit = 10, arg_maxiter = 200\<rparr>,
       Call_gen_one_shot_kg_initial_conditions
         \<lparr>arg_acq_function = qMultiFidelityKnowledgeGradient
            (?m0\<lparr>gp_hyperparameters := h'\<rparr>) (if \<not> truthy S then 128 else 2) v0',
          arg_bounds = bounds, arg_q = 4,
          arg_num_restarts = 10, arg_raw_samples = 512\<rparr>,
       Call_optimize_acqf_mixed
         \<lparr>arg_acq_function = qMultiFidelityKnowledgeGradient
            (?m0\<lparr>gp_hyperparameters := h'\<rparr>) (if \<not> truthy S then 128 else 2) v0',
          arg_bounds = bounds, arg_q = 4,
          arg_num_restarts = NUM_RESTARTS S, arg_raw_samples = RAW_SAMPLES S,
          arg_batch_limit = 5, arg_maxiter = 200,
          arg_fixed_features_list = [[(6, 0.5)], [(6, 0.75)], [(6, 1.0)]],
          arg_batch_initial_conditions = X_init'\<rparr>,
       Call_problem new_x']"
    by (rule mfkg_iteration_before_observation)
  have h: "h' = h"
    using a(1) b(1) envs_alike_same(1)[OF ea ticks(1)] by simp
  have v0: "v0' = v0"
    using a(2) b(2) envs_alike_same(2)[OF ea ticks(2)] unfolding h by simp
  have Xi: "X_init' = X_init"
    using a(3) b(3) envs_alike_same(3)[OF ea ticks(3)] unfolding h v0 by simp
  have nx: "new_x' = new_x"
    using a(4) b(4) envs_alike_same(4)[OF ea ticks(4)] unfolding h v0 Xi by simp
  have eq: "cs2 = cs1" "g_model g2 = g_model g1" "g_train_x g2 = g_train_x g1"
    using cs1 cs2 m1 m2 x1 x2 h v0 Xi nx by simp_all
  have "cell_9 L2 g1 cs1 = Inr (final_rec, cs')"
    using alikeD(2)[OF alike_cell_9[OF ea] rec1] cs1 by simp
  moreover have "cell_9 L2 g2 = cell_9 L2 g1"
    using eq(2) by (simp add: cell_9_def)
  ultimately show ?thesis
    using eq by simp
qed

lemma demo_envs_alike: "envs_alike 14 None demo_env demo_env_other"
  by (simp add: envs_alike_def oracle_alike_def demo_env_other_def)

lemma demo_other_runs:
  "case cell_7 demo_env None demo_globals [] of Inl _ \<Rightarrow> False | Inr (g1, cs1) \<Rightarrow>
     length cs1 = 15
   \<and> (case cell_9 demo_env g1 cs1 of Inl _ \<Rightarrow> False
      | Inr (final_rec, cs') \<Rightarrow> final_rec = [[0.5, 0.5, 0.5, 0.5, 0.5, 0.5, 1]])
   \<and> (case cell_7 demo_env_other None demo_globals [] of Inl _ \<Rightarrow> False
      | Inr (g2, cs2) \<Rightarrow> g_train_obj g2 \<noteq> g_train_obj g1)"
  by code_simp

text \<open>
  Claim C8. Whenever the loop of cell 7 completes, its last iteration started from the
  globals \<open>g_prev\<close> reached after \<^verbatim>\<open>N_ITER\<close> - 1 iterations. The global \<^verbatim>\<open>model\<close> afterwards is
  the model built on the training data of \<open>g_prev\<close> and fitted at the start of that
  iteration, while \<^verbatim>\<open>train_x\<close> and \<^verbatim>\<open>train_obj\<close> have the last batch and its observations
  appended; cell 9 computes the recommendation from that model. And the observations of
  the last batch do not reach the recommendation: with a library that differs only at
  the last call of the loop (the evaluation of the test function on the last batch), the
  loop ends with the same model and the same log, and cell 9 returns the same point.
\<close>

theorem recommendation_ignores_last_batch:
  assumes "cell_7 L SMOKE_TEST g cs = Inr (g1, cs1)"
  shows "(\<exists>g_prev cs_prev h new_x y.
            for_range (N_ITER SMOKE_TEST - 1) (mfkg_iteration L SMOKE_TEST)
              (g\<lparr>g_cumulative_cost := 0\<rparr>) cs = Inr (g_prev, cs_prev)
          \<and> mfkg_iteration L SMOKE_TEST g_prev cs_prev = Inr (g1, cs1)
          \<and> fit_hyperparameters L (length cs_prev)
              (snd (initialize_model (g_train_x g_prev) (g_train_obj g_prev))) = Inr h
          \<and> g_model g1 = Some ((snd (initialize_model (g_train_x g_prev) (g_train_obj g_prev)))
                                  \<lparr>gp_hyperparameters := h\<rparr>)
          \<and> problem L (length cs1 - 1) new_x = Inr y
          \<and> g_train_x g1 = g_train_x g_prev @ new_x
          \<and> g_train_obj g1 = g_train_obj g_prev @ unsqueeze y
          \<and> length cs1 = length cs_prev + 5
          \<and> cell_9 L g1 cs1 =
              get_recommendation L
                ((snd (initialize_model (g_train_x g_prev) (g_train_obj g_prev)))
                   \<lparr>gp_hyperparameters := h\<rparr>) cs1)
       \<and> (\<forall>L2 g2 cs2 final_rec cs'.
            envs_alike (length cs1 - 1) None L L2 \<longrightarrow>
            cell_7 L2 SMOKE_TEST g cs = Inr (g2, cs2) \<longrightarrow>
            cell_9 L g1 cs1 = Inr (final_rec, cs') \<longrightarrow>
            cs2 = cs1 \<and> g_model g2 = g_model g1 \<and> g_train_x g2 = g_train_x g1
          \<and> cell_9 L2 g2 cs2 = Inr (final_rec, cs'))"
proof (intro conjI allI impI)
  from assms obtain g_prev cs_prev where
    prev: "for_range (N_ITER SMOKE_TEST - 1) (mfkg_iteration L SMOKE_TEST)
             (g\<lparr>g_cumulative_cost := 0\<rparr>) cs = Inr (g_prev, cs_prev)" and
    last: "mfkg_iteration L SMOKE_TEST g_prev cs_prev = Inr (g1, cs1)"
    by (rule last_iteration_of_cell_7)
  from last obtain h new_x y c1 c2 c3 c4 where
    "fit_hyperparameters L (length cs_prev)
       (snd (initialize_model (g_train_x g_prev) (g_train_obj g_prev))) = Inr h"
    "problem L (Suc (Suc (Suc (Suc (length cs_prev))))) new_x = Inr y"
    "g_model g1 = Some ((snd (initialize_model (g_train_x g_prev) (g_train_obj g_prev)))
                          \<lparr>gp_hyperparameters := h\<rparr>)"
    "g_train_x g1 = g_train_x g_prev @ new_x"
    "g_train_obj g1 = g_train_obj g_prev @ unsqueeze y"
    "cs1 = cs_prev @ [c1, c2, c3, c4, Call_problem new_x]"
    by (rule mfkg_iteration_before_observation)
  with prev last show "\<exists>g_prev cs_prev h new_x y.
            for_range (N_ITER SMOKE_TEST - 1) (mfkg_iteration L SMOKE_TEST)
              (g\<lparr>g_cumulative_cost := 0\<rparr>) cs = Inr (g_prev, cs_prev)
          \<and> mfkg_iteration L SMOKE_TEST g_prev cs_prev = Inr (g1, cs1)
          \<and> fit_hyperparameters L (length cs_prev)
              (snd (initialize_model (g_train_x g_prev) (g_train_obj g_prev))) = Inr h
          \<and> g_model g1 = Some ((snd (initialize_model (g_train_x g_prev) (g_train_obj g_prev)))
                                  \<lparr>gp_hyperparameters := h\<rparr>)
          \<and> problem L (length cs1 - 1) new_x = Inr y
          \<and> g_train_x g1 = g_train_x g_prev @ new_x
          \<and> g_train_obj g1 = g_train_obj g_prev @ unsqueeze y
          \<and> length cs1 = length cs_prev + 5
          \<and> cell_9 L g1 cs1 =
              get_recommendation L
                ((snd (initialize_model (g_train_x g_prev) (g_train_obj g_prev)))
                   \<lparr>gp_hyperparameters := h\<rparr>) cs1"
    by (intro exI[of _ g_prev] exI[of _ cs_prev] exI[of _ h] exI[of _ new_x] exI[of _ y])
       (simp add: cell_9_def)
next
  fix L2 g2 cs2 final_rec cs'
  assume "envs_alike (length cs1 - 1) None L L2"
    and "cell_7 L2 SMOKE_TEST g cs = Inr (g2, cs2)"
    and "cell_9 L g1 cs1 = Inr (final_rec, cs')"
  from last_batch_does_not_reach_recommendation[OF assms this]
  show "cs2 = cs1" "g_model g2 = g_model g1" "g_train_x g2 = g_train_x g1"
    "cell_9 L2 g2 cs2 = Inr (final_rec, cs')"
    by blast+
qed

theorem recommendation_ignores_last_batch_witness:
  "\<exists>g1 cs1 g2 cs2 cs'.
      cell_7 demo_env None demo_globals [] = Inr (g1, cs1)
    \<and> envs_alike (length cs1 - 1) None demo_env demo_env_other
    \<and> cell_7 demo_env_other None demo_globals [] = Inr (g2, cs2)
    \<and> g_train_obj g2 \<noteq> g_train_obj g1
    \<and> g_model g2 = g_model g1
    \<and> cell_9 demo_env g1 cs1 = Inr ([[0.5, 0.5, 0.5, 0.5, 0.5, 0.5, 1]], cs')
    \<and> cell_9 demo_env_other g2 cs2 = Inr ([[0.5, 0.5, 0.5, 0.5, 0.5, 0.5, 1]], cs')"
proof -
  from demo_other_runs obtain g1 cs1 where
    run: "cell_7 demo_env None demo_globals [] = Inr (g1, cs1)" and
    rest: "length cs1 = 15
      \<and> (case cell_9 demo_env g1 cs1 of Inl _ \<Rightarrow> False
         | Inr (final_rec, cs') \<Rightarrow> final_rec = [[0.5, 0.5, 0.5, 0.5, 0.5, 0.5, 1]])
      \<and> (case cell_7 demo_env_other None demo_globals [] of Inl _ \<Rightarrow> False
         | Inr (g2, cs2) \<Rightarrow> g_train_obj g2 \<noteq> g_train_obj g1)"
    by (rule run_okE)
  from rest have n: "length cs1 = 15" by simp
  from rest obtain final_rec cs' where
    rec1: "cell_9 demo_env g1 cs1 = Inr (final_rec, cs')" and
    r: "final_rec = [[0.5, 0.5, 0.5, 0.5, 0.5, 0.5, 1]]"
    by (auto elim: run_okE)
  from rest obtain g2 cs2 where
    run2: "cell_7 demo_env_other None demo_globals [] = Inr (g2, cs2)" and
    d: "g_train_obj g2 \<noteq> g_train_obj g1"
    by (auto elim: run_okE)
  have ea: "envs_alike (length cs1 - 1) None demo_env demo_env_other"
    using demo_envs_alike n by simp
  from recommendation_ignores_last_batch[OF run] ea run2 rec1
  have "g_model g2 = g_model g1 \<and> cell_9 demo_env_other g2 cs2 = Inr (final_rec, cs')"
    by blast
  with run ea run2 d rec1 r show ?thesis by blast
qed

subsection \<open>The incumbent of the expected-improvement baseline\<close>

lemma tensor_max_Inr:
  assumes "tensor_max T = Inr b"
  shows "concat T \<noteq> [] \<and> b = Max (set (concat T))"
proof (cases "concat T")
  case Nil
  with assms show ?thesis by (simp add: tensor_max_def)
next
  case (Cons y ys)
  with assms have "b = fold max ys y" by (simp add: tensor_max_def)
  also have "\<dots> = Max (set (y # ys))" by (simp only: Max.set_eq_fold)
  finally show ?thesis using Cons by (simp only: list.distinct simp_thms)
qed

lemma observations_append:
  "observations L t (xs @ ys) = observations L t xs @ observations L (t + length xs) ys"
  by (induction xs arbitrary: t) simp_all

lemma incumbents_append: "incumbents (xs @ ys) = incumbents xs @ incumbents ys"
  by (simp add: incumbents_def)

lemma ei_iteration_observation:
  assumes "ei_iteration L g cs = Inr (g', cs')"
  obtains calls new_x new_obj where
    "cs' = cs @ calls"
    "observations L (length cs) calls = [new_obj]"
    "observed calls = [new_x]"
    "incumbents calls = [Max (set (concat (g_train_obj g)))]"
    "concat (g_train_obj g) \<noteq> []"
    "g_train_x g' = g_train_x g @ new_x"
    "g_train_obj g' = g_train_obj g @ new_obj"
proof -
  from assms obtain m best_f new_x new_obj cost cs1 where
    fit: "fit_gpytorch_model L (fst (initialize_model (g_train_x g) (g_train_obj g))) cs
            = Inr (m, cs1)" and
    mx: "tensor_max (g_train_obj g) = Inr best_f" and
    opt: "optimize_ei_and_get_observation L (get_ei m best_f) cs1
            = Inr ((new_x, new_obj, cost), cs')" and
    g': "g' = g\<lparr>g_train_x := g_train_x g @ new_x, g_train_obj := g_train_obj g @ new_obj,
             g_cumulative_cost := g_cumulative_cost g + cost, g_model := Some m\<rparr>"
    by (rule ei_iteration_Inr)
  from fit obtain m0 where cs1: "cs1 = cs @ [Call_fit_gpytorch_model m0]"
    by (rule fit_gpytorch_model_Inr)
  from opt obtain a y where
    y: "problem L (Suc (length cs1)) new_x = Inr y" and
    obj: "new_obj = unsqueeze y" and
    cs': "cs' = cs1 @ [Call_optimize_acqf a, Call_problem new_x]" and
    a: "arg_acq_function a = get_ei m best_f"
    by (rule optimize_ei_Inr) simp
  let ?calls = "[Call_fit_gpytorch_model m0, Call_optimize_acqf a, Call_problem new_x]"
  show ?thesis
  proof (rule that[of ?calls new_obj new_x])
    show "cs' = cs @ ?calls" using cs1 cs' by simp
    show "observations L (length cs) ?calls = [new_obj]" using y obj cs1 by simp
    show "observed ?calls = [new_x]" by (simp add: observed_def)
    show "incumbents ?calls = [Max (set (concat (g_train_obj g)))]"
      using a tensor_max_Inr[OF mx] by (simp add: incumbents_def get_ei_def)
    show "concat (g_train_obj g) \<noteq> []" using tensor_max_Inr[OF mx] by simp
    show "g_train_x g' = g_train_x g @ new_x" using g' by simp
    show "g_train_obj g' = g_train_obj g @ new_obj" using g' by simp
  qed
qed

lemma for_range_ei_observations:
  assumes "for_range n (ei_iteration L) g cs = Inr (g', cs')"
  shows "\<exists>calls. cs' = cs @ calls
     \<and> length (observations L (length cs) calls) = n
     \<and> g_train_obj g' = g_train_obj g @ concat (observations L (length cs) calls)
     \<and> g_train_x g' = g_train_x g @ concat (observed calls)
     \<and> incumbents calls
         = map (\<lambda>k. Max (set (concat (g_train_obj g
                  @ concat (take k (observations L (length cs) calls)))))) [0..<n]"
  using assms
proof (induction n arbitrary: g cs)
  case 0
  then have "g' = g" "cs' = cs" by (simp_all add: return_Inr)
  then show ?case by (simp add: incumbents_def observed_def)
next
  case (Suc n)
  from Suc.prems obtain g1 cs1 where
    step: "ei_iteration L g cs = Inr (g1, cs1)" and
    rest: "for_range n (ei_iteration L) g1 cs1 = Inr (g', cs')"
    by (auto simp: and_then_Inr)
  from step obtain c1 new_x new_obj where
    cs1: "cs1 = cs @ c1" and
    o1: "observations L (length cs) c1 = [new_obj]" and
    x1: "observed c1 = [new_x]" and
    i1: "incumbents c1 = [Max (set (concat (g_train_obj g)))]" and
    tx: "g_train_x g1 = g_train_x g @ new_x" and
    ty: "g_train_obj g1 = g_train_obj g @ new_obj"
    by (rule ei_iteration_observation)
  from Suc.IH[OF rest] obtain c2 where
    cs': "cs' = cs1 @ c2" and
    n: "length (observations L (length cs1) c2) = n" and
    y: "g_train_obj g' = g_train_obj g1 @ concat (observations L (length cs1) c2)" and
    x: "g_train_x g' = g_train_x g1 @ concat (observed c2)" and
    i2: "incumbents c2
         = map (\<lambda>k. Max (set (concat (g_train_obj g1
                  @ concat (take k (observations L (length cs1) c2)))))) [0..<n]"
    by blast
  have obs: "observations L (length cs) (c1 @ c2)
               = new_obj # observations L (length cs1) c2"
    using o1 cs1 by (simp add: observations_append)
  have "cs' = cs @ (c1 @ c2)" using cs1 cs' by simp
  moreover have "length (observations L (length cs) (c1 @ c2)) = Suc n"
    using obs n by simp
  moreover have "g_train_obj g' = g_train_obj g @ concat (observations L (length cs) (c1 @ c2))"
    using obs y ty by simp
  moreover have "g_train_x g' = g_train_x g @ concat (observed (c1 @ c2))"
    using x tx x1 by (simp add: observed_append)
  moreover have "incumbents (c1 @ c2)
         = map (\<lambda>k. Max (set (concat (g_train_obj g
                  @ concat (take k (observations L (length cs) (c1 @ c2))))))) [0..<Suc n]"
    unfolding obs map_upt_Suc incumbents_append i1 i2 ty by simp
  ultimately show ?case by blast
qed

lemma cell_11_observations:
  assumes "cell_11 L S g cs = Inr (g', cs')"
  shows "length (observations L (length cs) (drop (length cs) cs')) = Suc (N_ITER S)
     \<and> concat (hd (observations L (length cs) (drop (length cs) cs'))) \<noteq> []
     \<and> g_train_obj g' = concat (observations L (length cs) (drop (length cs) cs'))
     \<and> g_train_x g' = concat (observed (drop (length cs) cs'))
     \<and> incumbents (drop (length cs) cs')
         = map (\<lambda>k. Max (set (concat (concat
                  (take (Suc k) (observations L (length cs) (drop (length cs) cs')))))))
             [0..<N_ITER S]"
proof -
  from assms obtain x obj cs0 where
    init: "generate_initial_data L 16 cs = Inr ((x, obj), cs0)" and
    loop: "for_range (N_ITER S) (ei_iteration L)
             (g\<lparr>g_cumulative_cost := 0, g_train_x := x, g_train_obj := obj\<rparr>) cs0
             = Inr (g', cs')"
    unfolding cell_11_def by (auto simp: and_then_Inr)
  let ?g0 = "g\<lparr>g_cumulative_cost := 0, g_train_x := x, g_train_obj := obj\<rparr>"
  from init obtain y where
    y: "problem L (Suc (Suc (length cs))) x = Inr y" and
    obj: "obj = unsqueeze y" and
    cs0: "cs0 = cs @ [Call_rand 16 6, Call_randint 3 16, Call_problem x]"
    by (rule generate_initial_data_Inr)
  let ?c0 = "[Call_rand 16 6, Call_randint 3 16, Call_problem x]"
  from for_range_ei_observations[OF loop] obtain c where
    cs': "cs' = cs0 @ c" and
    n: "length (observations L (length cs0) c) = N_ITER S" and
    ty: "g_train_obj g' = obj @ concat (observations L (length cs0) c)" and
    tx: "g_train_x g' = x @ concat (observed c)" and
    inc: "incumbents c
         = map (\<lambda>k. Max (set (concat (obj
                  @ concat (take k (observations L (length cs0) c)))))) [0..<N_ITER S]"
    by auto
  have calls: "drop (length cs) cs' = ?c0 @ c" using cs0 cs' by simp
  have obs: "observations L (length cs) (?c0 @ c) = obj # observations L (length cs0) c"
    using y obj cs0 by (simp add: observations_append)
  have "N_ITER S = Suc (N_ITER S - 1)" by (rule N_ITER_pos)
  then obtain n' where n': "N_ITER S = Suc n'" by blast
  from loop n' obtain g1 cs1 where "ei_iteration L ?g0 cs0 = Inr (g1, cs1)"
    by (auto simp: and_then_Inr)
  then have nonempty: "concat obj \<noteq> []"
    by (rule ei_iteration_observation) simp
  show ?thesis
    unfolding calls obs using n ty tx inc nonempty
    by (simp add: observed_def incumbents_def)
qed

lemma demo_rising_cell_11_runs:
  "case cell_11 demo_env_rising None demo_globals [] of Inl _ \<Rightarrow> False
   | Inr (g', cs') \<Rightarrow> incumbents cs' = [1.5, 4, 7]
       \<and> g_train_obj g' ! 0 = [1.5] \<and> g_train_x g' ! 0 ! 6 = 0.5
       \<and> list_all (\<lambda>(row, y). row ! 6 = 1.0 \<longrightarrow> y ! 0 < 1.5)
            (zip (take 16 (g_train_x g')) (take 16 (g_train_obj g')))
       \<and> map (\<lambda>k. Max (set (concat (concat (take (Suc k) (observations demo_env_rising 0 cs'))))))
           [0..<3] = [1.5, 4, 7]"
  by code_simp

text \<open>
  Claim C10. Take any completed run of the baseline loop (cell 11) and the observations
  of that run: the values the test function returned for the newly drawn initial data
  and then for each batch, whatever the fidelity of the points. They are one more than
  \<^verbatim>\<open>N_ITER\<close> in number, together they are the final \<^verbatim>\<open>train_obj\<close> (and the points they were
  observed at the final \<^verbatim>\<open>train_x\<close>), and the \<^verbatim>\<open>best_f\<close> of the expected-improvement
  acquisition function optimised in iteration \<open>k\<close> (from 0) is the maximum over all entries
  of the initial observations and of the first \<open>k\<close> batches: no observation is left out
  for its fidelity. And a low-fidelity observation can be that incumbent: in the run of
  cell 11 on the library with rising values the incumbents are 1.5, 4, 7, the first of
  them the observation of row 0 of the initial data, at fidelity 0.5, above every
  observation of the initial data at the target fidelity.
\<close>

theorem ei_incumbent_is_max_over_all_fidelities:
  "(\<forall>L S g cs g' cs'. cell_11 L S g cs = Inr (g', cs') \<longrightarrow>
      (let calls = drop (length cs) cs'; obs = observations L (length cs) calls in
         length obs = Suc (N_ITER S) \<and> concat (hd obs) \<noteq> []
       \<and> g_train_obj g' = concat obs \<and> g_train_x g' = concat (observed calls)
       \<and> incumbents calls
           = map (\<lambda>k. Max (set (concat (concat (take (Suc k) obs))))) [0..<N_ITER S]))
   \<and> (\<exists>g' cs'. cell_11 demo_env_rising None demo_globals [] = Inr (g', cs')
        \<and> incumbents cs' = [1.5, 4, 7]
        \<and> g_train_obj g' ! 0 = [1.5] \<and> g_train_x g' ! 0 ! 6 = 0.5
        \<and> list_all (\<lambda>(row, y). row ! 6 = 1.0 \<longrightarrow> y ! 0 < 1.5)
             (zip (take 16 (g_train_x g')) (take 16 (g_train_obj g'))))"
proof (intro conjI allI impI)
  fix L S g cs g' cs'
  assume "cell_11 L S g cs = Inr (g', cs')"
  from cell_11_observations[OF this]
  show "let calls = drop (length cs) cs'; obs = observations L (length cs) calls in
         length obs = Suc (N_ITER S) \<and> concat (hd obs) \<noteq> []
       \<and> g_train_obj g' = concat obs \<and> g_train_x g' = concat (observed calls)
       \<and> incumbents calls
           = map (\<lambda>k. Max (set (concat (concat (take (Suc k) obs))))) [0..<N_ITER S]"
    unfolding Let_def by blast
next
  from demo_rising_cell_11_runs obtain g' cs' where
    "cell_11 demo_env_rising None demo_globals [] = Inr (g', cs')"
    "incumbents cs' = [1.5, 4, 7]
       \<and> g_train_obj g' ! 0 = [1.5] \<and> g_train_x g' ! 0 ! 6 = 0.5
       \<and> list_all (\<lambda>(row, y). row ! 6 = 1.0 \<longrightarrow> y ! 0 < 1.5)
            (zip (take 16 (g_train_x g')) (take 16 (g_train_obj g')))
       \<and> map (\<lambda>k. Max (set (concat (concat (take (Suc k) (observations demo_env_rising 0 cs'))))))
           [0..<3] = [1.5, 4, 7]"
    by (rule run_okE)
  then show "\<exists>g' cs'. cell_11 demo_env_rising None demo_globals [] = Inr (g', cs')
        \<and> incumbents cs' = [1.5, 4, 7]
        \<and> g_train_obj g' ! 0 = [1.5] \<and> g_train_x g' ! 0 ! 6 = 0.5
        \<and> list_all (\<lambda>(row, y). row ! 6 = 1.0 \<longrightarrow> y ! 0 < 1.5)
             (zip (take 16 (g_train_x g')) (take 16 (g_train_obj g')))"
    by blast
qed

theorem ei_incumbent_is_max_over_all_fidelities_witness:
  "\<exists>g' cs'. cell_11 demo_env_rising None demo_globals [] = Inr (g', cs')
     \<and> (let calls = drop (length ([] :: call list)) cs';
            obs = observations demo_env_rising (length ([] :: call list)) calls in
         length obs = Suc (N_ITER None) \<and> concat (hd obs) \<noteq> []
       \<and> g_train_obj g' = concat obs \<and> g_train_x g' = concat (observed calls)
       \<and> incumbents calls
           = map (\<lambda>k. Max (set (concat (concat (take (Suc k) obs))))) [0..<N_ITER None])
     \<and> incumbents cs' = [1.5, 4, 7]"
proof -
  from demo_rising_cell_11_runs obtain g' cs' where
    run: "cell_11 demo_env_rising None demo_globals [] = Inr (g', cs')" and
    inc: "incumbents cs' = [1.5, 4, 7]
       \<and> g_train_obj g' ! 0 = [1.5] \<and> g_train_x g' ! 0 ! 6 = 0.5
       \<and> list_all (\<lambda>(row, y). row ! 6 = 1.0 \<longrightarrow> y ! 0 < 1.5)
            (zip (take 16 (g_train_x g')) (take 16 (g_train_obj g')))
       \<and> map (\<lambda>k. Max (set (concat (concat (take (Suc k) (observations demo_env_rising 0 cs'))))))
           [0..<3] = [1.5, 4, 7]"
    by (rule run_okE)
  from ei_incumbent_is_max_over_all_fidelities run inc show ?thesis
    by blast
qed

subsection \<open>The baseline against the knowledge-gradient run\<close>

lemma mfkg_iteration_skeleton: "mfkg_iteration L S = bo_iteration L (kg_acquire L S)"
  by (rule ext)
     (simp add: mfkg_iteration_def bo_iteration_def kg_acquire_def and_then_assoc
        split: prod.splits)

lemma ei_iteration_skeleton: "ei_iteration L = bo_iteration L (ei_acquire L)"
  by (rule ext)
     (simp add: ei_iteration_def bo_iteration_def ei_acquire_def and_then_assoc
        split: prod.splits)

lemma for_range_calls:
  assumes "\<And>s cs s' cs'. body s cs = Inr (s', cs') \<Longrightarrow>
             \<exists>calls. cs' = cs @ calls \<and> map routine calls = pat \<and> list_all P calls"
    and "for_range n body s cs = Inr (s', cs')"
  shows "\<exists>calls. cs' = cs @ calls \<and> map routine calls = concat (replicate n pat)
           \<and> list_all P calls"
  using assms(2)
proof (induction n arbitrary: s cs)
  case 0
  then show ?case by (simp add: return_Inr)
next
  case (Suc n)
  from Suc.prems obtain s1 cs1 where
    step: "body s cs = Inr (s1, cs1)" and rest: "for_range n body s1 cs1 = Inr (s', cs')"
    by (auto simp: and_then_Inr)
  from assms(1)[OF step] obtain calls1 where
    "cs1 = cs @ calls1" "map routine calls1 = pat" "list_all P calls1"
    by blast
  moreover from Suc.IH[OF rest] obtain calls2 where
    "cs' = cs1 @ calls2" "map routine calls2 = concat (replicate n pat)" "list_all P calls2"
    by blast
  ultimately show ?case
    by (intro exI[of _ "calls1 @ calls2"]) simp
qed

lemma ei_iteration_calls:
  assumes "ei_iteration L g cs = Inr (g', cs')"
  shows "\<exists>calls. cs' = cs @ calls
     \<and> map routine calls = [''fit_gpytorch_model'', ''optimize_acqf'', ''problem'']
     \<and> list_all baseline_call calls"
proof -
  from assms obtain m best_f new_x new_obj cost cs1 where
    fit: "fit_gpytorch_model L (fst (initialize_model (g_train_x g) (g_train_obj g))) cs
            = Inr (m, cs1)" and
    opt: "optimize_ei_and_get_observation L (get_ei m best_f) cs1
            = Inr ((new_x, new_obj, cost), cs')"
    by (rule ei_iteration_Inr)
  from fit obtain m0 where cs1: "cs1 = cs @ [Call_fit_gpytorch_model m0]"
    by (rule fit_gpytorch_model_Inr)
  from opt have cs': "cs' = cs1 @ [Call_optimize_acqf
                   \<lparr>arg_acq_function = get_ei m best_f, arg_bounds = drop_last_column bounds,
                    arg_q = 4, arg_num_restarts = 10, arg_raw_samples = 512,
                    arg_batch_limit = 5, arg_maxiter = 200\<rparr>,
                 Call_problem new_x]"
    by (rule optimize_ei_Inr)
  show ?thesis
    unfolding cs' cs1
    by (intro exI[of _ "[Call_fit_gpytorch_model m0, Call_optimize_acqf
                   \<lparr>arg_acq_function = get_ei m best_f, arg_bounds = drop_last_column bounds,
                    arg_q = 4, arg_num_restarts = 10, arg_raw_samples = 512,
                    arg_batch_limit = 5, arg_maxiter = 200\<rparr>,
                 Call_problem new_x]"])
       (simp add: routine_def baseline_call_def is_get_ei_def get_ei_def)
qed

lemma mfkg_iteration_calls:
  assumes "mfkg_iteration L S g cs = Inr (g', cs')"
  shows "\<exists>calls. cs' = cs @ calls
     \<and> map routine calls = [''fit_gpytorch_model'', ''optimize_acqf'',
          ''gen_one_shot_kg_initial_conditions'', ''optimize_acqf_mixed'', ''problem'']
     \<and> list_all (\<lambda>c. True) calls"
proof -
  from assms obtain c1 c2 c3 c4 new_x where
    "cs' = cs @ [Call_fit_gpytorch_model c1, Call_optimize_acqf c2,
       Call_gen_one_shot_kg_initial_conditions c3, Call_optimize_acqf_mixed c4,
       Call_problem new_x]"
    by (rule mfkg_iteration_before_observation)
  then show ?thesis
    by (intro exI[of _ "[Call_fit_gpytorch_model c1, Call_optimize_acqf c2,
       Call_gen_one_shot_kg_initial_conditions c3, Call_optimize_acqf_mixed c4,
       Call_problem new_x]"]) (simp add: routine_def)
qed

lemma demo_notebooks_differ:
  "(case notebook demo_env None [] of Inl _ \<Rightarrow> False | Inr ((g, r1, r2), cs) \<Rightarrow>
      g_cumulative_cost g = 72 \<and> length (g_train_x g) = 28
    \<and> map routine (drop 20 cs) =
        [''torch.rand'', ''torch.randint'', ''problem'',
         ''fit_gpytorch_model'', ''optimize_acqf'', ''problem'',
         ''fit_gpytorch_model'', ''optimize_acqf'', ''problem'',
         ''fit_gpytorch_model'', ''optimize_acqf'', ''problem'',
         ''optimize_acqf'', ''problem''])
 \<and> (case spec_notebook demo_env None [] of Inl _ \<Rightarrow> False | Inr ((g, r1, r2), cs) \<Rightarrow>
      g_cumulative_cost g = 69 \<and> length (g_train_x g) = 40
    \<and> map routine (drop 20 cs) =
        [''fit_gpytorch_model'', ''gen_one_shot_kg_initial_conditions'',
           ''optimize_acqf_mixed'', ''problem'',
         ''fit_gpytorch_model'', ''gen_one_shot_kg_initial_conditions'',
           ''optimize_acqf_mixed'', ''problem'',
         ''fit_gpytorch_model'', ''gen_one_shot_kg_initial_conditions'',
           ''optimize_acqf_mixed'', ''problem'',
         ''optimize_acqf'', ''problem''])"
  by code_simp

lemma and_then_return: "and_then (return v) f = f v"
  by (rule ext) (simp add: and_then_def return_def)

lemma notebook_phases:
  "notebook L S =
     and_then (cell_6 L) (\<lambda>g.
     and_then (kg_phase L S g) (\<lambda>(g, rec_kg).
     and_then (baseline_phase L S g) (\<lambda>(g, rec_ei).
     return (g, rec_kg, rec_ei))))"
  by (simp add: notebook_def kg_phase_def baseline_phase_def and_then_assoc and_then_return)

lemma kg_phase_skeleton: "kg_phase L S g = bo_phase L S (kg_acquire L S) g"
  by (simp add: kg_phase_def bo_phase_def cell_7_def mfkg_iteration_skeleton)

lemma baseline_phase_skeleton:
  "baseline_phase L S g =
     and_then (generate_initial_data L 16) (\<lambda>(x, obj).
       bo_phase L S (ei_acquire L) (g\<lparr>g_train_x := x, g_train_obj := obj\<rparr>))"
proof -
  have upd: "\<And>x obj. g\<lparr>g_train_x := x, g_train_obj := obj, g_cumulative_cost := 0\<rparr>
                 = g\<lparr>g_cumulative_cost := 0, g_train_x := x, g_train_obj := obj\<rparr>"
    by (cases g) simp
  show ?thesis
    by (rule ext)
       (simp add: baseline_phase_def bo_phase_def cell_11_def ei_iteration_skeleton
          and_then_def upd split: sum.splits prod.splits)
qed

lemma baseline_phase_trace:
  assumes "baseline_phase L S g cs = Inr ((g', final_rec), cs')"
  shows "\<exists>x0 loop_calls a m.
       drop (length cs) cs' = [Call_rand 16 6, Call_randint 3 16, Call_problem x0]
          @ loop_calls @ [Call_optimize_acqf a, Call_problem final_rec]
     \<and> map routine loop_calls = concat (replicate (N_ITER S)
         [''fit_gpytorch_model'', ''optimize_acqf'', ''problem''])
     \<and> list_all baseline_call loop_calls
     \<and> g_train_x g' = x0 @ concat (observed loop_calls)
     \<and> g_model g' = Some m
     \<and> arg_acq_function a = FixedFeatureAcquisitionFunction (PosteriorMean m) 7 [6] [1]
     \<and> arg_bounds a = drop_last_column bounds \<and> arg_q a = 1"
proof -
  from assms obtain cs1 where
    c11: "cell_11 L S g cs = Inr (g', cs1)" and
    c12: "cell_9 L g' cs1 = Inr (final_rec, cs')"
    unfolding baseline_phase_def by (auto simp: run_Inr)
  from c11 obtain x obj cs0 where
    gen: "generate_initial_data L 16 cs = Inr ((x, obj), cs0)" and
    loop: "for_range (N_ITER S) (ei_iteration L)
             (g\<lparr>g_cumulative_cost := 0, g_train_x := x, g_train_obj := obj\<rparr>) cs0 = Inr (g', cs1)"
    by (auto simp: cell_11_def run_Inr)
  from gen have cs0: "cs0 = cs @ [Call_rand 16 6, Call_randint 3 16, Call_problem x]"
    by (rule generate_initial_data_Inr)
  have "\<exists>calls. cs1 = cs0 @ calls
       \<and> map routine calls = concat (replicate (N_ITER S)
                              [''fit_gpytorch_model'', ''optimize_acqf'', ''problem''])
       \<and> list_all baseline_call calls"
    by (rule for_range_calls[OF _ loop]) (rule ei_iteration_calls)
  then obtain calls where
    cs1: "cs1 = cs0 @ calls" and
    names: "map routine calls = concat (replicate (N_ITER S)
                              [''fit_gpytorch_model'', ''optimize_acqf'', ''problem''])" and
    base: "list_all baseline_call calls"
    by blast
  from for_range_ei_observations[OF loop] cs1
  have tx: "g_train_x g' = x @ concat (observed calls)"
    by auto
  from c12 obtain m where m: "g_model g' = Some m" and
    rec: "get_recommendation L m cs1 = Inr (final_rec, cs')"
    by (auto simp: cell_9_def raise_def split: option.splits)
  let ?a = "\<lparr>arg_acq_function = FixedFeatureAcquisitionFunction (PosteriorMean m) 7 [6] [1],
             arg_bounds = drop_last_column bounds, arg_q = 1,
             arg_num_restarts = 10, arg_raw_samples = 512,
             arg_batch_limit = 5, arg_maxiter = 200\<rparr>"
  from rec have cs': "cs' = cs1 @ [Call_optimize_acqf ?a, Call_problem final_rec]"
    by (rule get_recommendation_Inr)
  have "drop (length cs) cs' = [Call_rand 16 6, Call_randint 3 16, Call_problem x]
          @ calls @ [Call_optimize_acqf ?a, Call_problem final_rec]"
    using cs0 cs1 cs' by simp
  with names base tx m show ?thesis
    by (intro exI[of _ x] exI[of _ calls] exI[of _ ?a] exI[of _ m]) simp
qed

lemma demo_baseline_phase_runs:
  "case baseline_phase demo_env None demo_globals [] of Inl _ \<Rightarrow> False
   | Inr ((g', final_rec), cs') \<Rightarrow> length cs' = 14 \<and> length (g_train_x g') = 28
       \<and> final_rec = [[0.5, 0.5, 0.5, 0.5, 0.5, 0.5, 1]]"
  by code_simp

text \<open>
  Claim C3, as stated, fails. On the concrete library the notebook and the notebook whose
  baseline is the loop of cell 7 with expected improvement in the place of knowledge
  gradient differ: the notebook's baseline draws new initial data and calls
  \<^verbatim>\<open>optimize_acqf\<close> where the other calls \<^verbatim>\<open>gen_one_shot_kg_initial_conditions\<close> and
  \<^verbatim>\<open>optimize_acqf_mixed\<close>; it ends with 28 training rows and cost 72 instead of 40 rows and
  cost 69.
\<close>

theorem baseline_is_kg_run_with_ei_counterexample:
  "notebook demo_env None [] \<noteq> spec_notebook demo_env None []
 \<and> (case notebook demo_env None [] of Inl _ \<Rightarrow> False | Inr ((g, r1, r2), cs) \<Rightarrow>
      g_cumulative_cost g = 72 \<and> length (g_train_x g) = 28
    \<and> map routine (drop 20 cs) =
        [''torch.rand'', ''torch.randint'', ''problem'',
         ''fit_gpytorch_model'', ''optimize_acqf'', ''problem'',
         ''fit_gpytorch_model'', ''optimize_acqf'', ''problem'',
         ''fit_gpytorch_model'', ''optimize_acqf'', ''problem'',
         ''optimize_acqf'', ''problem''])
 \<and> (case spec_notebook demo_env None [] of Inl _ \<Rightarrow> False | Inr ((g, r1, r2), cs) \<Rightarrow>
      g_cumulative_cost g = 69 \<and> length (g_train_x g) = 40
    \<and> map routine (drop 20 cs) =
        [''fit_gpytorch_model'', ''gen_one_shot_kg_initial_conditions'',
           ''optimize_acqf_mixed'', ''problem'',
         ''fit_gpytorch_model'', ''gen_one_shot_kg_initial_conditions'',
           ''optimize_acqf_mixed'', ''problem'',
         ''fit_gpytorch_model'', ''gen_one_shot_kg_initial_conditions'',
           ''optimize_acqf_mixed'', ''problem'',
         ''optimize_acqf'', ''problem''])"
proof -
  have "notebook demo_env None [] \<noteq> spec_notebook demo_env None []"
    using demo_notebooks_differ
    by (auto split: sum.splits prod.splits)
  with demo_notebooks_differ show ?thesis by blast
qed

text \<open>
  Claim C3, amended. The notebook is cell 6, the knowledge-gradient phase (cells 7 and 9)
  and the baseline phase (cells 11 and 12). The knowledge-gradient phase is stages 3 to 7
  with the knowledge-gradient way of obtaining a batch. The baseline phase first draws
  new initial data (stage 2 again) and then is the same stages 3 to 7 on them, with the
  expected-improvement way of obtaining a batch: the same loop body (model fitting,
  concatenation of the batch and its observations, accumulation of the cost), the same
  number of iterations and the same recommendation. Accordingly, whenever the baseline
  phase completes, its calls are the three of the data generation, then \<^verbatim>\<open>N_ITER\<close> times
  model fitting, one \<^verbatim>\<open>optimize_acqf\<close> and one evaluation of the test function, then the
  \<^verbatim>\<open>optimize_acqf\<close> and the evaluation of the recommendation; every optimisation of the
  loop is of an expected-improvement acquisition function with column 6 fixed to 1, over
  the six design coordinates, with batch size 4; the final \<^verbatim>\<open>train_x\<close> is the newly drawn
  data followed by the batches of the loop; and the recommendation optimises the
  posterior mean of the last fitted model with column 6 fixed to 1, over the six design
  coordinates, with batch size 1, and is the point evaluated last. An iteration of the
  loop of cell 7 instead calls \<^verbatim>\<open>optimize_acqf\<close>, \<^verbatim>\<open>gen_one_shot_kg_initial_conditions\<close> and
  \<^verbatim>\<open>optimize_acqf_mixed\<close>.
\<close>

theorem baseline_repeats_stages_with_its_own_optimisation:
  "notebook L SMOKE_TEST =
     and_then (cell_6 L) (\<lambda>g.
     and_then (kg_phase L SMOKE_TEST g) (\<lambda>(g, rec_kg).
     and_then (baseline_phase L SMOKE_TEST g) (\<lambda>(g, rec_ei).
     return (g, rec_kg, rec_ei))))
 \<and> kg_phase L SMOKE_TEST g = bo_phase L SMOKE_TEST (kg_acquire L SMOKE_TEST) g
 \<and> baseline_phase L SMOKE_TEST g =
     and_then (generate_initial_data L 16) (\<lambda>(x, obj).
       bo_phase L SMOKE_TEST (ei_acquire L) (g\<lparr>g_train_x := x, g_train_obj := obj\<rparr>))
 \<and> (\<forall>cs g' final_rec cs'.
       baseline_phase L SMOKE_TEST g cs = Inr ((g', final_rec), cs') \<longrightarrow>
       (\<exists>x0 loop_calls a m.
          drop (length cs) cs' = [Call_rand 16 6, Call_randint 3 16, Call_problem x0]
             @ loop_calls @ [Call_optimize_acqf a, Call_problem final_rec]
        \<and> map routine loop_calls = concat (replicate (N_ITER SMOKE_TEST)
            [''fit_gpytorch_model'', ''optimize_acqf'', ''problem''])
        \<and> list_all baseline_call loop_calls
        \<and> g_train_x g' = x0 @ concat (observed loop_calls)
        \<and> g_model g' = Some m
        \<and> arg_acq_function a = FixedFeatureAcquisitionFunction (PosteriorMean m) 7 [6] [1]
        \<and> arg_bounds a = drop_last_column bounds \<and> arg_q a = 1))
 \<and> (\<forall>g0 cs0 g1 cs1. cell_7 L SMOKE_TEST g0 cs0 = Inr (g1, cs1) \<longrightarrow>
       map routine (drop (length cs0) cs1) =
         concat (replicate (N_ITER SMOKE_TEST)
           [''fit_gpytorch_model'', ''optimize_acqf'',
            ''gen_one_shot_kg_initial_conditions'', ''optimize_acqf_mixed'', ''problem'']))"
proof (intro conjI allI impI)
  show "notebook L SMOKE_TEST =
     and_then (cell_6 L) (\<lambda>g.
     and_then (kg_phase L SMOKE_TEST g) (\<lambda>(g, rec_kg).
     and_then (baseline_phase L SMOKE_TEST g) (\<lambda>(g, rec_ei).
     return (g, rec_kg, rec_ei))))"
    by (rule notebook_phases)
  show "kg_phase L SMOKE_TEST g = bo_phase L SMOKE_TEST (kg_acquire L SMOKE_TEST) g"
    by (rule kg_phase_skeleton)
  show "baseline_phase L SMOKE_TEST g =
     and_then (generate_initial_data L 16) (\<lambda>(x, obj).
       bo_phase L SMOKE_TEST (ei_acquire L) (g\<lparr>g_train_x := x, g_train_obj := obj\<rparr>))"
    by (rule baseline_phase_skeleton)
next
  fix cs g' final_rec cs'
  assume "baseline_phase L SMOKE_TEST g cs = Inr ((g', final_rec), cs')"
  then show "\<exists>x0 loop_calls a m.
          drop (length cs) cs' = [Call_rand 16 6, Call_randint 3 16, Call_problem x0]
             @ loop_calls @ [Call_optimize_acqf a, Call_problem final_rec]
        \<and> map routine loop_calls = concat (replicate (N_ITER SMOKE_TEST)
            [''fit_gpytorch_model'', ''optimize_acqf'', ''problem''])
        \<and> list_all baseline_call loop_calls
        \<and> g_train_x g' = x0 @ concat (observed loop_calls)
        \<and> g_model g' = Some m
        \<and> arg_acq_function a = FixedFeatureAcquisitionFunction (PosteriorMean m) 7 [6] [1]
        \<and> arg_bounds a = drop_last_column bounds \<and> arg_q a = 1"
    by (rule baseline_phase_trace)
next
  fix g0 cs0 g1 cs1
  assume "cell_7 L SMOKE_TEST g0 cs0 = Inr (g1, cs1)"
  then have loop7: "for_range (N_ITER SMOKE_TEST) (mfkg_iteration L SMOKE_TEST)
               (g0\<lparr>g_cumulative_cost := 0\<rparr>) cs0 = Inr (g1, cs1)"
    by (simp add: cell_7_def)
  have "\<exists>calls. cs1 = cs0 @ calls
       \<and> map routine calls = concat (replicate (N_ITER SMOKE_TEST)
            [''fit_gpytorch_model'', ''optimize_acqf'',
             ''gen_one_shot_kg_initial_conditions'', ''optimize_acqf_mixed'', ''problem''])
       \<and> list_all (\<lambda>c. True) calls"
    by (rule for_range_calls[OF _ loop7]) (rule mfkg_iteration_calls)
  then show "map routine (drop (length cs0) cs1) =
              concat (replicate (N_ITER SMOKE_TEST)
                [''fit_gpytorch_model'', ''optimize_acqf'',
                 ''gen_one_shot_kg_initial_conditions'', ''optimize_acqf_mixed'', ''problem''])"
    by auto
qed

theorem baseline_repeats_stages_with_its_own_optimisation_witness:
  "\<exists>g' final_rec cs'.
     baseline_phase demo_env None demo_globals [] = Inr ((g', final_rec), cs')
   \<and> (\<exists>x0 loop_calls a m.
          drop (length ([] :: call list)) cs'
             = [Call_rand 16 6, Call_randint 3 16, Call_problem x0]
               @ loop_calls @ [Call_optimize_acqf a, Call_problem final_rec]
        \<and> map routine loop_calls = concat (replicate (N_ITER None)
            [''fit_gpytorch_model'', ''optimize_acqf'', ''problem''])
        \<and> list_all baseline_call loop_calls
        \<and> g_train_x g' = x0 @ concat (observed loop_calls)
        \<and> g_model g' = Some m
        \<and> arg_acq_function a = FixedFeatureAcquisitionFunction (PosteriorMean m) 7 [6] [1]
        \<and> arg_bounds a = drop_last_column bounds \<and> arg_q a = 1)
   \<and> length cs' = 14 \<and> length (g_train_x g') = 28
   \<and> final_rec = [[0.5, 0.5, 0.5, 0.5, 0.5, 0.5, 1]]
   \<and> (\<exists>g1 cs1. cell_7 demo_env None demo_globals [] = Inr (g1, cs1)
        \<and> map routine (drop (length ([] :: call list)) cs1) =
            concat (replicate (N_ITER None)
              [''fit_gpytorch_model'', ''optimize_acqf'',
               ''gen_one_shot_kg_initial_conditions'', ''optimize_acqf_mixed'', ''problem'']))"
proof -
  from demo_baseline_phase_runs obtain v cs' where
    v: "baseline_phase demo_env None demo_globals [] = Inr (v, cs')" and
    p: "case v of (g', final_rec) \<Rightarrow> length cs' = 14 \<and> length (g_train_x g') = 28
          \<and> final_rec = [[0.5, 0.5, 0.5, 0.5, 0.5, 0.5, 1]]"
    by (rule run_okE)
  obtain g' final_rec where vv: "v = (g', final_rec)" by (cases v)
  from v vv have run: "baseline_phase demo_env None demo_globals [] = Inr ((g', final_rec), cs')"
    by simp
  from p vv have sizes: "length cs' = 14 \<and> length (g_train_x g') = 28
          \<and> final_rec = [[0.5, 0.5, 0.5, 0.5, 0.5, 0.5, 1]]"
    by simp
  from demo_cell_7_runs obtain g1 cs1 where
    run7: "cell_7 demo_env None demo_globals [] = Inr (g1, cs1)"
    by (rule run_okE)
  note inst = baseline_repeats_stages_with_its_own_optimisation[of demo_env None demo_globals]
  from inst run have trace: "\<exists>x0 loop_calls a m.
          drop (length ([] :: call list)) cs'
             = [Call_rand 16 6, Call_randint 3 16, Call_problem x0]
               @ loop_calls @ [Call_optimize_acqf a, Call_problem final_rec]
        \<and> map routine loop_calls = concat (replicate (N_ITER None)
            [''fit_gpytorch_model'', ''optimize_acqf'', ''problem''])
        \<and> list_all baseline_call loop_calls
        \<and> g_train_x g' = x0 @ concat (observed loop_calls)
        \<and> g_model g' = Some m
        \<and> arg_acq_function a = FixedFeatureAcquisitionFunction (PosteriorMean m) 7 [6] [1]
        \<and> arg_bounds a = drop_last_column bounds \<and> arg_q a = 1"
    by blast
  from inst run7 have "map routine (drop (length ([] :: call list)) cs1) =
            concat (replicate (N_ITER None)
              [''fit_gpytorch_model'', ''optimize_acqf'',
               ''gen_one_shot_kg_initial_conditions'', ''optimize_acqf_mixed'', ''problem''])"
    by blast
  with run7 have kg: "\<exists>g1 cs1. cell_7 demo_env None demo_globals [] = Inr (g1, cs1)
        \<and> map routine (drop (length ([] :: call list)) cs1) =
            concat (replicate (N_ITER None)
              [''fit_gpytorch_model'', ''optimize_acqf'',
               ''gen_one_shot_kg_initial_conditions'', ''optimize_acqf_mixed'', ''problem''])"
    by blast
  from run trace sizes kg show ?thesis by blast
qed

subsection \<open>The smoke-test flag\<close>

text \<open>
  Claim C4, evaluated with \<^verbatim>\<open>SMOKE_TEST\<close> set to "1" on the concrete library: the size
  parameters (routine, q, num_restarts, raw_samples) of the optimisation calls of the
  whole notebook, in order, and below them the distinct ones of the run with the flag
  unset. With the flag set, \<^verbatim>\<open>gen_one_shot_kg_initial_conditions\<close>, the recommendation's
  \<^verbatim>\<open>optimize_acqf\<close> and the baseline's \<^verbatim>\<open>optimize_acqf\<close> keep 10 restarts and 512 raw
  samples.
\<close>

theorem smoke_test_keeps_full_size_counts:
  "(case notebook demo_env (Some ''1'') [] of Inl _ \<Rightarrow> False | Inr (r, cs) \<Rightarrow>
      concat (map counts cs) =
        [(''optimize_acqf'', 1, 2, 4),
         (''gen_one_shot_kg_initial_conditions'', 4, 10, 512),
         (''optimize_acqf_mixed'', 4, 2, 4),
         (''optimize_acqf'', 1, 10, 512),
         (''optimize_acqf'', 4, 10, 512),
         (''optimize_acqf'', 1, 10, 512)])
 \<and> (case notebook demo_env None [] of Inl _ \<Rightarrow> False | Inr (r, cs) \<Rightarrow>
      remdups (concat (map counts cs)) =
        [(''optimize_acqf'', 1, 10, 1024),
         (''gen_one_shot_kg_initial_conditions'', 4, 10, 512),
         (''optimize_acqf_mixed'', 4, 10, 512),
         (''optimize_acqf'', 4, 10, 512),
         (''optimize_acqf'', 1, 10, 512)])"
  by code_simp

end
